theory Spec2Isabelle
  imports Main "HOL-Library.Sublist"
begin

section \<open>API gateway: routing table and path matcher\<close>

text \<open>
  \<^verbatim>\<open>api-gateway/main.py\<close>. A Python \<^verbatim>\<open>dict\<close> is an association list with
  distinct keys, in insertion order. Paths are strings of characters; \<^verbatim>\<open>str.startswith\<close>
  is \<^const>\<open>prefix\<close> and \<^verbatim>\<open>len\<close> is \<^const>\<open>length\<close>.
\<close>

definition SERVICE_MAPPINGS :: "(string \<times> string) list" where
  "SERVICE_MAPPINGS =
    [(''/api/v1/auth'', ''http://auth-service:5001''),
     (''/api/v1/users'', ''http://user-service:5002''),
     (''/api/v1/patients'', ''http://patient-service:5003''),
     (''/api/v1/medical-staff'', ''http://medical-staff-service:5004''),
     (''/api/v1/medical-images'', ''http://medical-image-service:5005''),
     (''/api/v1/medical-tests'', ''http://medical-test-service:5009''),
     (''/api/v1/diagnostic-reports'', ''http://diagnostic-report-service:5006''),
     (''/api/v1/billing'', ''http://billing-service:5007''),
     (''/api/v1/workflow'', ''http://workflow-service:5008'')]"

text \<open>\<^verbatim>\<open>if not path.startswith("/"): path = "/" + path\<close>\<close>

definition normalize_path :: "string \<Rightarrow> string" where
  "normalize_path path = (if prefix ''/'' path then path else ''/'' @ path)"

text \<open>
  \<^verbatim>\<open>sorted(keys, key=len, reverse=True)\<close>: Python's sort is stable, and \<^verbatim>\<open>reverse=True\<close>
  keeps the original order of keys of equal length; that is the stable sort by the negated
  length.
\<close>

definition sorted_paths :: "(string \<times> string) list \<Rightarrow> string list" where
  "sorted_paths mappings = sort_key (\<lambda>k. - int (length k)) (map fst mappings)"

text \<open>
  The \<^verbatim>\<open>for\<close> loop: the first key in the sorted order that prefixes the path decides.
  \<^verbatim>\<open>SERVICE_MAPPINGS[service_path]\<close> is the dictionary lookup \<^const>\<open>map_of\<close>; the key
  comes from the table's own keys, so the lookup finds it (lemma \<open>first_match_lookup\<close>).
\<close>

fun first_match :: "(string \<times> string) list \<Rightarrow> string list \<Rightarrow> string \<Rightarrow> (string \<times> string) option" where
  "first_match mappings [] path = None"
| "first_match mappings (service_path # rest) path =
     (if prefix service_path path
      then map_option (\<lambda>base_url. (base_url, path)) (map_of mappings service_path)
      else first_match mappings rest path)"

text \<open>The function over an arbitrary routing table, and over the configured one.\<close>

definition find_target_service_in :: "(string \<times> string) list \<Rightarrow> string \<Rightarrow> (string \<times> string) option" where
  "find_target_service_in mappings path =
     (let path' = normalize_path path
      in first_match mappings (sorted_paths mappings) path')"

definition find_target_service :: "string \<Rightarrow> (string \<times> string) option" where
  "find_target_service path = find_target_service_in SERVICE_MAPPINGS path"

section \<open>API gateway: proxy forwarder and catch-all router\<close>

text \<open>
  The inbound request as the framework presents it: header and query-parameter
  collections are multi-valued (a list of pairs, header names in lower case), the body is
  a byte string.
\<close>

record request =
  req_method :: string
  req_headers :: "(string \<times> string) list"
  req_query_params :: "(string \<times> string) list"
  req_body :: string

text \<open>What \<^verbatim>\<open>client.request(...)\<close> is called with.\<close>

record upstream_request =
  up_method :: string
  up_url :: string
  up_params :: "(string \<times> string) list"
  up_content :: string
  up_headers :: "(string \<times> string) list"

text \<open>What the HTTP client hands back: status, multi-valued headers, content.\<close>

record upstream_response =
  ur_status_code :: nat
  ur_headers :: "(string \<times> string) list"
  ur_content :: string

text \<open>
  The exceptions of the HTTP client, by the \<^verbatim>\<open>except\<close> clause that catches them; each
  carries \<^verbatim>\<open>str(e)\<close>.
\<close>

datatype client_error = TimeoutException string | ConnectError string | OtherException string

datatype outcome = Returned upstream_response | Raised client_error

text \<open>The \<^verbatim>\<open>Response(content, status_code, headers, media_type)\<close> the gateway builds.\<close>

record response =
  content :: string
  status_code :: nat
  headers :: "(string \<times> string) list"
  media_type :: "string option"

datatype http_exception = HTTPException nat string "(string \<times> string) list"

text \<open>
  \<^verbatim>\<open>dict(request.headers)\<close>: the framework's header collection lists every header line
  under \<^verbatim>\<open>keys()\<close> and indexes to the first line of a name, so the dictionary keeps each
  name once, in order of first appearance, with its first value.
\<close>

fun dict_first :: "('k \<times> 'v) list \<Rightarrow> ('k \<times> 'v) list" where
  "dict_first [] = []"
| "dict_first ((k, v) # xs) = (k, v) # filter (\<lambda>kv. fst kv \<noteq> k) (dict_first xs)"

text \<open>\<^verbatim>\<open>d[k] = v\<close> on a dictionary: overwrite in place, or append a new key.\<close>

fun dict_set :: "('k \<times> 'v) list \<Rightarrow> 'k \<Rightarrow> 'v \<Rightarrow> ('k \<times> 'v) list" where
  "dict_set [] k v = [(k, v)]"
| "dict_set ((k', v') # d) k v = (if k' = k then (k, v) # d else (k', v') # dict_set d k v)"

text \<open>
  \<^verbatim>\<open>dict(request.query_params)\<close>: the framework's query-parameter collection indexes to
  the last value of a repeated key, so the dictionary keeps each key once with its last
  value.
\<close>

definition dict_last :: "('k \<times> 'v) list \<Rightarrow> ('k \<times> 'v) list" where
  "dict_last xs = fold (\<lambda>kv d. dict_set d (fst kv) (snd kv)) xs []"

text \<open>\<^verbatim>\<open>", ".join(values)\<close>\<close>

fun join_comma :: "string list \<Rightarrow> string" where
  "join_comma [] = []"
| "join_comma [v] = v"
| "join_comma (v # w # vs) = v @ '', '' @ join_comma (w # vs)"

text \<open>
  \<^verbatim>\<open>dict(response.headers)\<close> and \<^verbatim>\<open>response.headers.get(name)\<close>: the HTTP client's
  header collection lists each name once and indexes to the values of all lines of that
  name joined by a comma and a space.
\<close>

definition dict_joined :: "(string \<times> string) list \<Rightarrow> (string \<times> string) list" where
  "dict_joined xs =
     map (\<lambda>k. (k, join_comma (map snd (filter (\<lambda>kv. fst kv = k) xs)))) (map fst (dict_first xs))"

text \<open>\<^verbatim>\<open>d.pop(key, None)\<close>\<close>

definition pop :: "'k \<Rightarrow> ('k \<times> 'v) list \<Rightarrow> ('k \<times> 'v) list" where
  "pop key d = filter (\<lambda>kv. fst kv \<noteq> key) d"

definition forwarded_request :: "request \<Rightarrow> string \<Rightarrow> string \<Rightarrow> upstream_request" where
  "forwarded_request request target_url path =
     (let full_url = target_url @ path;
          query_params = dict_last (req_query_params request);
          body = req_body request;
          headers0 = dict_first (req_headers request);
          headers1 = pop ''host'' headers0;
          headers2 = pop ''connection'' headers1;
          headers3 = pop ''content-length'' headers2
      in \<lparr>up_method = req_method request, up_url = full_url, up_params = query_params,
          up_content = body, up_headers = headers3\<rparr>)"

definition relayed_response :: "upstream_response \<Rightarrow> response" where
  "relayed_response r =
     (let response_body = ur_content r;
          response_headers0 = dict_joined (ur_headers r);
          response_headers1 = pop ''content-encoding'' response_headers0;
          response_headers2 = pop ''transfer-encoding'' response_headers1;
          response_headers3 = pop ''content-length'' response_headers2
      in \<lparr>content = response_body, status_code = ur_status_code r,
          headers = response_headers3,
          media_type = map_of (dict_joined (ur_headers r)) ''content-type''\<rparr>)"

text \<open>
  \<^verbatim>\<open>proxy_request\<close>. The backend is the parameter \<open>client\<close>: what the one call of
  \<^verbatim>\<open>client.request\<close> returns or raises. The result is paired with the list of calls
  sent upstream.
\<close>

definition proxy_request ::
  "(upstream_request \<Rightarrow> outcome) \<Rightarrow> request \<Rightarrow> string \<Rightarrow> string
    \<Rightarrow> (http_exception + response) \<times> upstream_request list" where
  "proxy_request client request target_url path =
     (let sent = forwarded_request request target_url path
      in (case client sent of
            Returned r \<Rightarrow> Inr (relayed_response r)
          | Raised (TimeoutException m) \<Rightarrow> Inl (HTTPException 504 ''Gateway timeout'' [])
          | Raised (ConnectError m) \<Rightarrow> Inl (HTTPException 503 ''Service unavailable'' [])
          | Raised (OtherException m) \<Rightarrow> Inl (HTTPException 500 (''Gateway error: '' @ m) []),
          [sent]))"

datatype reply = Json "(string \<times> string) list" | Proxied response

definition gateway_router ::
  "(upstream_request \<Rightarrow> outcome) \<Rightarrow> request \<Rightarrow> string
    \<Rightarrow> (http_exception + reply) \<times> upstream_request list" where
  "gateway_router client request path =
     (if path = '''' \<or> path = ''/''
      then (Inr (Json [(''service'', ''api-gateway''), (''status'', ''running''), (''version'', ''1.0.0'')]), [])
      else if path = ''health''
      then (Inr (Json [(''status'', ''healthy''), (''service'', ''api-gateway'')]), [])
      else
        (let full_path = (if \<not> prefix ''/'' path then ''/'' @ path else path)
         in (case find_target_service full_path of
               None \<Rightarrow> (Inl (HTTPException 404 (''Route not found: '' @ full_path) []), [])
             | Some (target_url, remaining_path) \<Rightarrow>
                 (case proxy_request client request target_url remaining_path of
                    (Inl e, sent) \<Rightarrow> (Inl e, sent)
                  | (Inr r, sent) \<Rightarrow> (Inr (Proxied r), sent)))))"

text \<open>Three backends used in worked instances: one per way the upstream call can fail.\<close>

definition backend_timing_out :: "upstream_request \<Rightarrow> outcome" where
  "backend_timing_out sent = Raised (TimeoutException ''timed out'')"

definition backend_refusing :: "upstream_request \<Rightarrow> outcome" where
  "backend_refusing sent = Raised (ConnectError ''All connection attempts failed'')"

definition backend_failing :: "upstream_request \<Rightarrow> outcome" where
  "backend_failing sent = Raised (OtherException ''Invalid URL'')"

definition plain_get :: request where
  "plain_get = \<lparr>req_method = ''GET'', req_headers = [(''host'', ''gateway:8000'')],
     req_query_params = [], req_body = ''''\<rparr>"

definition repeated_key_get :: request where
  "repeated_key_get = \<lparr>req_method = ''GET'', req_headers = [(''host'', ''gateway:8000'')],
     req_query_params = [(''tag'', ''a''), (''tag'', ''b'')], req_body = ''''\<rparr>"

section \<open>Tokens and the JOSE library\<close>

text \<open>
  Claims are JSON values; a payload is a JSON object, a Python \<^verbatim>\<open>dict\<close> (an association
  list read with \<^const>\<open>map_of\<close>). JSON numbers are integers here.
\<close>

datatype json = JNull | JBool bool | JInt int | JStr string | JArr "json list" | JObj "(string \<times> json) list"

type_synonym claims = "(string \<times> json) list"

text \<open>\<^verbatim>\<open>payload.get(key)\<close> and \<^verbatim>\<open>payload.get(key, default)\<close>; Python's \<^verbatim>\<open>None\<close> is \<^const>\<open>JNull\<close>.\<close>

definition get_default :: "claims \<Rightarrow> string \<Rightarrow> json \<Rightarrow> json" where
  "get_default payload key dflt = (case map_of payload key of None \<Rightarrow> dflt | Some v \<Rightarrow> v)"

definition get :: "claims \<Rightarrow> string \<Rightarrow> json" where
  "get payload key = get_default payload key JNull"

text \<open>Python truthiness, as \<^verbatim>\<open>if not is_active\<close> reads a claim.\<close>

fun truthy :: "json \<Rightarrow> bool" where
  "truthy JNull = False"
| "truthy (JBool b) = b"
| "truthy (JInt n) = (n \<noteq> 0)"
| "truthy (JStr s) = (s \<noteq> [])"
| "truthy (JArr xs) = (xs \<noteq> [])"
| "truthy (JObj kvs) = (kvs \<noteq> [])"

text \<open>The substring test \<^verbatim>\<open>needle in text\<close>.\<close>

fun contains :: "string \<Rightarrow> string \<Rightarrow> bool" where
  "contains needle [] = (needle = [])"
| "contains needle (c # cs) = (prefix needle (c # cs) \<or> contains needle cs)"

text \<open>
  The signing and parsing of tokens belongs to the JOSE library, outside the repository.
  What the library reads in a token string is a parameter of the model: either the string
  is not a well-formed signed token (with the library's message), or it has a header
  algorithm, exactly one key under which its signature verifies, and a claims object.
\<close>

datatype jws = Malformed string | Signed string string claims

text \<open>
  The surroundings of the services: the library's reading of token strings, Python's
  \<^verbatim>\<open>int()\<close> on a string (\<^const>\<open>None\<close> for \<^verbatim>\<open>ValueError\<close>), Python's \<^verbatim>\<open>str()\<close> of a value
  that is not a string, Python's \<^verbatim>\<open>str.lower()\<close> on a string with a character outside
  ASCII, the password hash check, and the clock in whole seconds.
\<close>

record world =
  w_jws :: "string \<Rightarrow> jws"
  w_int_of_str :: "string \<Rightarrow> int option"
  w_str :: "json \<Rightarrow> string"
  w_lower :: "string \<Rightarrow> string"
  w_checkpw :: "string \<Rightarrow> string \<Rightarrow> bool"
  w_now :: int

text \<open>
  \<^verbatim>\<open>str.lower()\<close>: on an ASCII string it maps the letters A to Z to a to z and leaves the
  rest; on any other string it is the lower-casing of the surroundings.
\<close>

definition lower_char :: "char \<Rightarrow> char" where
  "lower_char c =
     (case map_of (zip ''ABCDEFGHIJKLMNOPQRSTUVWXYZ'' ''abcdefghijklmnopqrstuvwxyz'') c of
        None \<Rightarrow> c | Some l \<Rightarrow> l)"

definition is_ascii :: "string \<Rightarrow> bool" where
  "is_ascii s = list_all (\<lambda>c. (of_char c :: nat) < 128) s"

definition lower :: "world \<Rightarrow> string \<Rightarrow> string" where
  "lower w s = (if is_ascii s then map lower_char s else w_lower w s)"

record settings =
  SECRET_KEY :: string
  ALGORITHM :: string
  ACCESS_TOKEN_EXPIRE_MINUTES :: int
  ADMIN_USERNAME :: string
  ADMIN_PASSWORD_HASH :: string
  API_GATEWAY_URL :: string

text \<open>The library's decoding options, with its defaults.\<close>

record options =
  verify_signature :: bool
  verify_aud :: bool
  verify_iat :: bool
  verify_exp :: bool
  verify_nbf :: bool
  verify_iss :: bool
  verify_sub :: bool
  verify_jti :: bool
  verify_at_hash :: bool
  require_aud :: bool
  require_iss :: bool
  require_sub :: bool

definition defaults :: options where
  "defaults = \<lparr>verify_signature = True, verify_aud = True, verify_iat = True, verify_exp = True,
     verify_nbf = True, verify_iss = True, verify_sub = True, verify_jti = True,
     verify_at_hash = True, require_aud = False, require_iss = False, require_sub = False\<rparr>"

text \<open>
  The library raises \<^verbatim>\<open>JWTError\<close> (with a message) for what it checks; a Python error of
  another class, such as the \<^verbatim>\<open>TypeError\<close> of \<^verbatim>\<open>int(None)\<close>, passes through it.
\<close>

datatype jose_error = JWTError string | PyError string

datatype coerced = IntOk int | ValueError | TypeError

fun py_int :: "world \<Rightarrow> json \<Rightarrow> coerced" where
  "py_int w (JInt n) = IntOk n"
| "py_int w (JBool b) = IntOk (if b then 1 else 0)"
| "py_int w (JStr s) = (case w_int_of_str w s of Some n \<Rightarrow> IntOk n | None \<Rightarrow> ValueError)"
| "py_int w v = TypeError"

definition is_str :: "json \<Rightarrow> bool" where
  "is_str v = (case v of JStr s \<Rightarrow> True | _ \<Rightarrow> False)"

text \<open>The claim validators, each \<^const>\<open>None\<close> when it passes; no issuer, audience, subject or access token is given to compare with.\<close>

definition validate_required :: "claims \<Rightarrow> options \<Rightarrow> jose_error option" where
  "validate_required claims opts =
     (if require_aud opts \<and> map_of claims ''aud'' = None
        then Some (JWTError ''missing required key \"aud\" among claims'')
      else if require_iss opts \<and> map_of claims ''iss'' = None
        then Some (JWTError ''missing required key \"iss\" among claims'')
      else if require_sub opts \<and> map_of claims ''sub'' = None
        then Some (JWTError ''missing required key \"sub\" among claims'')
      else None)"

definition validate_iat :: "world \<Rightarrow> claims \<Rightarrow> jose_error option" where
  "validate_iat w claims =
     (case map_of claims ''iat'' of
        None \<Rightarrow> None
      | Some v \<Rightarrow>
          (case py_int w v of
             IntOk n \<Rightarrow> None
           | ValueError \<Rightarrow> Some (JWTError ''Issued At claim (iat) must be an integer.'')
           | TypeError \<Rightarrow> Some (PyError ''TypeError'')))"

definition validate_nbf :: "world \<Rightarrow> claims \<Rightarrow> jose_error option" where
  "validate_nbf w claims =
     (case map_of claims ''nbf'' of
        None \<Rightarrow> None
      | Some v \<Rightarrow>
          (case py_int w v of
             IntOk nbf \<Rightarrow> if nbf > w_now w then Some (JWTError ''The token is not yet valid (nbf)'') else None
           | ValueError \<Rightarrow> Some (JWTError ''Not Before claim (nbf) must be an integer.'')
           | TypeError \<Rightarrow> Some (PyError ''TypeError'')))"

definition validate_exp :: "world \<Rightarrow> claims \<Rightarrow> jose_error option" where
  "validate_exp w claims =
     (case map_of claims ''exp'' of
        None \<Rightarrow> None
      | Some v \<Rightarrow>
          (case py_int w v of
             IntOk exp \<Rightarrow> if exp < w_now w then Some (JWTError ''Signature has expired.'') else None
           | ValueError \<Rightarrow> Some (JWTError ''Expiration Time claim (exp) must be an integer.'')
           | TypeError \<Rightarrow> Some (PyError ''TypeError'')))"

definition validate_aud :: "claims \<Rightarrow> jose_error option" where
  "validate_aud claims =
     (case map_of claims ''aud'' of
        None \<Rightarrow> None
      | Some (JStr s) \<Rightarrow> Some (JWTError ''Invalid audience'')
      | Some (JArr vs) \<Rightarrow>
          (if list_all is_str vs then Some (JWTError ''Invalid audience'')
           else Some (JWTError ''Invalid claim format in token''))
      | Some v \<Rightarrow> Some (JWTError ''Invalid claim format in token''))"

definition validate_sub :: "claims \<Rightarrow> jose_error option" where
  "validate_sub claims =
     (case map_of claims ''sub'' of
        None \<Rightarrow> None
      | Some v \<Rightarrow> if is_str v then None else Some (JWTError ''Subject must be a string.''))"

definition validate_jti :: "claims \<Rightarrow> jose_error option" where
  "validate_jti claims =
     (case map_of claims ''jti'' of
        None \<Rightarrow> None
      | Some v \<Rightarrow> if is_str v then None else Some (JWTError ''JWT ID must be a string.''))"

definition validate_at_hash :: "claims \<Rightarrow> jose_error option" where
  "validate_at_hash claims =
     (case map_of claims ''at_hash'' of
        None \<Rightarrow> None
      | Some v \<Rightarrow> Some (JWTError ''No access_token provided to compare against at_hash claim.''))"

text \<open>
  The first check that fails decides, in the library's order; a required claim is also
  verified.
\<close>

fun first_error :: "(bool \<times> jose_error option) list \<Rightarrow> jose_error option" where
  "first_error [] = None"
| "first_error ((enabled, r) # rest) =
     (if enabled then (case r of Some e \<Rightarrow> Some e | None \<Rightarrow> first_error rest)
      else first_error rest)"

definition validate_claims :: "world \<Rightarrow> claims \<Rightarrow> options \<Rightarrow> jose_error option" where
  "validate_claims w claims opts =
     first_error
       [(True, validate_required claims opts),
        (verify_iat opts, validate_iat w claims),
        (verify_nbf opts, validate_nbf w claims),
        (verify_exp opts, validate_exp w claims),
        (verify_aud opts \<or> require_aud opts, validate_aud claims),
        (verify_sub opts \<or> require_sub opts, validate_sub claims),
        (verify_jti opts, validate_jti claims),
        (verify_at_hash opts, validate_at_hash claims)]"

text \<open>
  \<^verbatim>\<open>jwt.decode(token, key, algorithms=[...], options=...)\<close>: the signature (header
  algorithm among the allowed ones, and the key), then the claims.
\<close>

definition jwt_decode :: "world \<Rightarrow> string \<Rightarrow> string \<Rightarrow> string list \<Rightarrow> options \<Rightarrow> jose_error + claims" where
  "jwt_decode w token key algorithms opts =
     (if token = [] then Inl (JWTError ''Not enough segments'')
      else
        (case w_jws w token of
           Malformed msg \<Rightarrow> Inl (JWTError msg)
         | Signed alg signing_key claims \<Rightarrow>
             (if verify_signature opts \<and> alg \<notin> set algorithms
                then Inl (JWTError ''The specified alg value is not allowed'')
              else if verify_signature opts \<and> signing_key \<noteq> key
                then Inl (JWTError ''Signature verification failed.'')
              else (case validate_claims w claims opts of
                      Some e \<Rightarrow> Inl e
                    | None \<Rightarrow> Inr claims))))"

section \<open>Token validators of the services\<close>

text \<open>
  \<^verbatim>\<open>decode_access_token\<close> of the auth service; the user service and the medical-test
  service carry the same function (only the log prefix differs).
\<close>

definition auth_first_options :: options where
  "auth_first_options = defaults\<lparr>verify_signature := True, verify_exp := True, verify_iat := False,
     verify_iss := False, require_iss := False, verify_aud := False, require_aud := False\<rparr>"

definition auth_retry_options :: options where
  "auth_retry_options = defaults\<lparr>verify_signature := True, verify_exp := True, verify_iat := False,
     verify_iss := False, require_iss := False, verify_aud := False, require_aud := False,
     verify_nbf := False\<rparr>"

definition auth_decode_access_token :: "world \<Rightarrow> settings \<Rightarrow> string \<Rightarrow> claims option" where
  "auth_decode_access_token w settings token =
     (if token = [] then None
      else
        (case jwt_decode w token (SECRET_KEY settings) [ALGORITHM settings] auth_first_options of
           Inr payload \<Rightarrow>
             (let iss = get payload ''iss''
              in if iss \<noteq> JNull \<and> iss \<noteq> JStr ''ims-auth-service'' then None else Some payload)
         | Inl (JWTError error_msg) \<Rightarrow>
             (if contains ''iss'' (lower w error_msg) \<or> contains ''issuer'' (lower w error_msg)
              then (case jwt_decode w token (SECRET_KEY settings) [ALGORITHM settings] auth_retry_options of
                      Inr payload \<Rightarrow> Some payload
                    | Inl retry_error \<Rightarrow> None)
              else None)
         | Inl (PyError e) \<Rightarrow> None))"

text \<open>\<^verbatim>\<open>decode_access_token\<close> of the patient service.\<close>

definition patient_first_options :: options where
  "patient_first_options = defaults\<lparr>verify_signature := True, verify_exp := True, require_iss := False,
     require_aud := False, require_sub := False, verify_iss := False, verify_aud := False\<rparr>"

definition patient_retry_options :: options where
  "patient_retry_options = defaults\<lparr>verify_signature := True, verify_exp := True, require_iss := False,
     require_aud := False, require_sub := False, verify_iss := False, verify_aud := False,
     verify_iat := False, verify_nbf := False\<rparr>"

definition patient_decode_access_token :: "world \<Rightarrow> settings \<Rightarrow> string \<Rightarrow> claims option" where
  "patient_decode_access_token w settings token =
     (if token = [] then None
      else
        (case jwt_decode w token (SECRET_KEY settings) [ALGORITHM settings] patient_first_options of
           Inr payload \<Rightarrow> Some payload
         | Inl (JWTError e) \<Rightarrow>
             (let error_msg = lower w e
              in if contains ''iss'' error_msg \<or> contains ''mandatory'' error_msg
                    \<or> contains ''expired'' error_msg \<or> contains ''signature'' error_msg
                 then (case jwt_decode w token (SECRET_KEY settings) [ALGORITHM settings] patient_retry_options of
                         Inr payload \<Rightarrow> Some payload
                       | Inl retry_error \<Rightarrow> None)
                 else None)
         | Inl (PyError e) \<Rightarrow> None))"

text \<open>
  \<^verbatim>\<open>decode_access_token\<close> of the medical-staff service; the diagnostic-report service
  carries the same function.
\<close>

definition staff_options :: options where
  "staff_options = defaults\<lparr>verify_signature := True, verify_exp := True, require_iss := False\<rparr>"

definition staff_decode_access_token :: "world \<Rightarrow> settings \<Rightarrow> string \<Rightarrow> claims option" where
  "staff_decode_access_token w settings token =
     (case jwt_decode w token (SECRET_KEY settings) [ALGORITHM settings] staff_options of
        Inr payload \<Rightarrow> Some payload
      | Inl e \<Rightarrow> None)"

section \<open>Conditions on tokens, and worked inputs\<close>

text \<open>
  The signature of a token string verifies under a key; the \<open>exp\<close> claim of a token lies in
  the past at validation time.
\<close>

definition signature_verifies :: "world \<Rightarrow> string \<Rightarrow> string \<Rightarrow> bool" where
  "signature_verifies w key token =
     (token \<noteq> [] \<and> (case w_jws w token of Signed alg k c \<Rightarrow> k = key | Malformed msg \<Rightarrow> False))"

definition exp_in_past :: "world \<Rightarrow> string \<Rightarrow> bool" where
  "exp_in_past w token =
     (case w_jws w token of
        Malformed msg \<Rightarrow> False
      | Signed alg k c \<Rightarrow>
          (case map_of c ''exp'' of
             None \<Rightarrow> False
           | Some v \<Rightarrow> (case py_int w v of IntOk e \<Rightarrow> e < w_now w | _ \<Rightarrow> False)))"

definition example_settings :: settings where
  "example_settings = \<lparr>SECRET_KEY = ''shared-secret'', ALGORITHM = ''HS256'',
     ACCESS_TOKEN_EXPIRE_MINUTES = 30, ADMIN_USERNAME = ''admin'', ADMIN_PASSWORD_HASH = ''admin#123'',
     API_GATEWAY_URL = ''http://api-gateway:8000''\<rparr>"

text \<open>Nine token strings as the library reads them; the clock stands at 2000.\<close>

definition admin_payload :: claims where
  "admin_payload = [(''role'', JStr ''admin''), (''is_active'', JBool True), (''exp'', JInt 3800),
     (''iat'', JInt 2000), (''iss'', JStr ''ims-auth-service'')]"

definition patient_payload :: claims where
  "patient_payload = [(''role'', JStr ''patient''), (''is_active'', JBool True), (''sub'', JStr ''PAT-000012''),
     (''exp'', JInt 3800), (''iat'', JInt 2000), (''iss'', JStr ''ims-auth-service'')]"

definition foreign_payload :: claims where
  "foreign_payload = [(''role'', JStr ''patient''), (''is_active'', JBool True), (''sub'', JStr ''PAT-000012''),
     (''exp'', JInt 3800), (''iat'', JInt 2000), (''iss'', JStr ''other-issuer'')]"

definition inactive_payload :: claims where
  "inactive_payload = [(''role'', JStr ''patient''), (''is_active'', JBool False), (''sub'', JStr ''PAT-000012''),
     (''exp'', JInt 3800), (''iat'', JInt 2000), (''iss'', JStr ''ims-auth-service'')]"

definition inactive_no_sub_payload :: claims where
  "inactive_no_sub_payload = [(''role'', JStr ''patient''), (''is_active'', JBool False),
     (''exp'', JInt 3800), (''iat'', JInt 2000), (''iss'', JStr ''ims-auth-service'')]"

definition inactive_admin_payload :: claims where
  "inactive_admin_payload = [(''role'', JStr ''admin''), (''is_active'', JBool False), (''exp'', JInt 3800),
     (''iat'', JInt 2000), (''iss'', JStr ''ims-auth-service'')]"

definition legacy_payload :: claims where
  "legacy_payload = [(''role'', JStr ''doctor''), (''sub'', JStr ''USR-000003''), (''exp'', JInt 3800)]"

definition expired_payload :: claims where
  "expired_payload = [(''role'', JStr ''patient''), (''is_active'', JBool True), (''sub'', JStr ''PAT-000012''),
     (''exp'', JInt 1000), (''iat'', JInt 100), (''iss'', JStr ''ims-auth-service'')]"

definition example_jws :: "string \<Rightarrow> jws" where
  "example_jws token =
     (if token = ''t-admin'' then Signed ''HS256'' ''shared-secret'' admin_payload
      else if token = ''t-patient'' then Signed ''HS256'' ''shared-secret'' patient_payload
      else if token = ''t-foreign'' then Signed ''HS256'' ''shared-secret'' foreign_payload
      else if token = ''t-inactive'' then Signed ''HS256'' ''shared-secret'' inactive_payload
      else if token = ''t-inactive-no-sub'' then Signed ''HS256'' ''shared-secret'' inactive_no_sub_payload
      else if token = ''t-legacy'' then Signed ''HS256'' ''shared-secret'' legacy_payload
      else if token = ''t-expired'' then Signed ''HS256'' ''shared-secret'' expired_payload
      else if token = ''t-forged'' then Signed ''HS256'' ''another-secret'' admin_payload
      else if token = ''t-inactive-admin'' then Signed ''HS256'' ''shared-secret'' inactive_admin_payload
      else Malformed ''Not enough segments'')"

definition example_checkpw :: "string \<Rightarrow> string \<Rightarrow> bool" where
  "example_checkpw plain hashed = (hashed = ''hash-of-'' @ plain)"

definition example_world :: world where
  "example_world = \<lparr>w_jws = example_jws, w_int_of_str = Map.empty, w_str = (\<lambda>v. ''None''), w_lower = (\<lambda>s. s),
     w_checkpw = example_checkpw, w_now = 2000\<rparr>"

text \<open>
  The messages with which the first decoding attempt of the auth-service validator can fail
  on a well-formed signed token.
\<close>

definition auth_first_messages :: "string list" where
  "auth_first_messages =
    [''The specified alg value is not allowed'', ''Signature verification failed.'',
     ''The token is not yet valid (nbf)'', ''Not Before claim (nbf) must be an integer.'',
     ''Signature has expired.'', ''Expiration Time claim (exp) must be an integer.'',
     ''Subject must be a string.'', ''JWT ID must be a string.'',
     ''No access_token provided to compare against at_hash claim.'']"

section \<open>Authorization guards\<close>

datatype UserRole = ADMIN | PATIENT | RADIOLOGIST | DOCTOR | CASHIER

text \<open>\<^verbatim>\<open>role.value\<close>, and \<^verbatim>\<open>str(role)\<close> of an enumeration member.\<close>

fun role_value :: "UserRole \<Rightarrow> string" where
  "role_value ADMIN = ''admin''"
| "role_value PATIENT = ''patient''"
| "role_value RADIOLOGIST = ''radiologist''"
| "role_value DOCTOR = ''doctor''"
| "role_value CASHIER = ''cashier''"

fun role_str :: "UserRole \<Rightarrow> string" where
  "role_str ADMIN = ''UserRole.ADMIN''"
| "role_str PATIENT = ''UserRole.PATIENT''"
| "role_str RADIOLOGIST = ''UserRole.RADIOLOGIST''"
| "role_str DOCTOR = ''UserRole.DOCTOR''"
| "role_str CASHIER = ''UserRole.CASHIER''"

text \<open>What a call site passes to \<^verbatim>\<open>require_role\<close>: enumeration members or plain strings.\<close>

datatype role_arg = RoleEnum UserRole | RoleStr string

text \<open>\<^verbatim>\<open>role.value if hasattr(role, 'value') else str(role)\<close>\<close>

fun value_or_str :: "role_arg \<Rightarrow> string" where
  "value_or_str (RoleEnum r) = role_value r"
| "value_or_str (RoleStr s) = s"

text \<open>The values of the user dictionaries.\<close>

datatype pyval = PNone | PBool bool | PStr string | PRole UserRole

text \<open>A row of the users table (the columns the guards and the issuer read).\<close>

record user =
  user_id :: string
  username :: string
  email :: string
  name :: string
  hashed_password :: string
  user_role :: UserRole
  is_active :: "bool option"

text \<open>
  What a guard hands to the endpoint: a user dictionary (the admin sentinel), the \<open>sub\<close>
  claim as read from the payload, or a row of the users table.
\<close>

datatype principal = UserDict "(string \<times> pyval) list" | UserId json | UserRow user

text \<open>
  The part of a request the guards read: the credentials the bearer scheme extracted
  (if any) and the \<open>Authorization\<close> header (if any).
\<close>

record guard_request =
  credentials :: "string option"
  authorization :: "string option"

definition unauthorized :: "(string \<times> string) list \<Rightarrow> http_exception" where
  "unauthorized hdrs = HTTPException 401 ''Could not validate credentials'' hdrs"

definition www_authenticate :: "(string \<times> string) list" where
  "www_authenticate = [(''WWW-Authenticate'', ''Bearer'')]"

definition forbidden_inactive :: http_exception where
  "forbidden_inactive = HTTPException 403 ''User account is inactive. Please contact administrator.'' []"

text \<open>\<^verbatim>\<open>auth_header.replace("Bearer ", "")\<close>: every occurrence, left to right.\<close>

fun remove_bearer :: "string \<Rightarrow> string" where
  "remove_bearer [] = []"
| "remove_bearer (c # cs) =
     (if prefix ''Bearer '' (c # cs) then remove_bearer (drop 6 cs) else c # remove_bearer cs)"

text \<open>\<^verbatim>\<open>str.strip()\<close>: white space of Python strings among the first 256 code points.\<close>

definition is_space :: "char \<Rightarrow> bool" where
  "is_space c = (let n = (of_char c :: nat) in (9 \<le> n \<and> n \<le> 13) \<or> (28 \<le> n \<and> n \<le> 32) \<or> n = 133 \<or> n = 160)"

definition strip :: "string \<Rightarrow> string" where
  "strip s = rev (dropWhile is_space (rev (dropWhile is_space s)))"

subsection \<open>Patient service\<close>

text \<open>The opening block of each patient-service guard: the token of the request.\<close>

definition patient_token :: "guard_request \<Rightarrow> (string \<times> string) list \<Rightarrow> http_exception + string" where
  "patient_token request hdrs =
     (case credentials request of
        None \<Rightarrow>
          (case authorization request of
             None \<Rightarrow> Inl (unauthorized hdrs)
           | Some auth_header \<Rightarrow>
               if auth_header = [] \<or> \<not> prefix ''Bearer '' auth_header then Inl (unauthorized hdrs)
               else Inr (strip (remove_bearer auth_header)))
      | Some token \<Rightarrow> Inr token)"

definition admin_dict :: "(string \<times> pyval) list" where
  "admin_dict = [(''id'', PNone), (''username'', PStr ''admin''), (''email'', PNone),
     (''name'', PStr ''Admin''), (''user_role'', PRole ADMIN), (''is_active'', PBool True),
     (''is_admin'', PBool True)]"

definition patient_get_current_user_id ::
  "world \<Rightarrow> settings \<Rightarrow> guard_request \<Rightarrow> bool \<Rightarrow> http_exception + json" where
  "patient_get_current_user_id w settings request allow_inactive =
     (case patient_token request www_authenticate of
        Inl e \<Rightarrow> Inl e
      | Inr token \<Rightarrow>
          (case patient_decode_access_token w settings token of
             None \<Rightarrow> Inl (unauthorized www_authenticate)
           | Some payload \<Rightarrow>
               (let user_id = get payload ''sub''
                in if user_id = JNull then Inl (unauthorized [])
                   else if \<not> allow_inactive \<and> \<not> truthy (get_default payload ''is_active'' (JBool True))
                     then Inl forbidden_inactive
                   else Inr user_id)))"


text \<open>\<^verbatim>\<open>user_role not in allowed_role_values\<close>, negated: a claim equals a string of the list.\<close>

definition in_strings :: "json \<Rightarrow> string list \<Rightarrow> bool" where
  "in_strings v strs = (case v of JStr s \<Rightarrow> s \<in> set strs | _ \<Rightarrow> False)"

definition patient_require_role ::
  "role_arg list \<Rightarrow> world \<Rightarrow> settings \<Rightarrow> guard_request \<Rightarrow> http_exception + principal" where
  "patient_require_role allowed_roles w settings request =
     (case patient_token request [] of
        Inl e \<Rightarrow> Inl e
      | Inr token \<Rightarrow>
          (case patient_decode_access_token w settings token of
             None \<Rightarrow> Inl (unauthorized [])
           | Some payload \<Rightarrow>
               (let is_active = get_default payload ''is_active'' (JBool True)
                in if \<not> truthy is_active then Inl forbidden_inactive
                   else
                     (let user_role = get payload ''role'';
                          allowed_role_values = map value_or_str allowed_roles
                      in if \<not> in_strings user_role allowed_role_values
                           then Inl (HTTPException 403 ''Not enough permissions'' [])
                         else
                           (let user_id = get payload ''sub''
                            in if user_role = JStr (role_value ADMIN) \<and> user_id = JNull
                                 then Inr (UserDict admin_dict)
                               else Inr (UserId user_id))))))"

subsection \<open>Medical-test service\<close>

definition get_token_from_request :: "guard_request \<Rightarrow> string option" where
  "get_token_from_request request =
     (case authorization request of
        None \<Rightarrow> None
      | Some auth_header \<Rightarrow>
          if auth_header = [] then None
          else if \<not> prefix ''Bearer '' auth_header then None
          else (let token = strip (remove_bearer auth_header)
                in if token \<noteq> [] then Some token else None))"

definition test_get_current_user_id ::
  "world \<Rightarrow> settings \<Rightarrow> guard_request \<Rightarrow> bool \<Rightarrow> http_exception + json" where
  "test_get_current_user_id w settings request allow_inactive =
     (case get_token_from_request request of
        None \<Rightarrow> Inl (unauthorized www_authenticate)
      | Some token \<Rightarrow>
          (case auth_decode_access_token w settings token of
             None \<Rightarrow> Inl (unauthorized www_authenticate)
           | Some payload \<Rightarrow>
               (let user_id = get payload ''sub''
                in if user_id = JNull then Inl (unauthorized [])
                   else if \<not> allow_inactive \<and> \<not> truthy (get_default payload ''is_active'' (JBool True))
                     then Inl forbidden_inactive
                   else Inr user_id)))"

text \<open>\<^verbatim>\<open>str(value)\<close> of a claim, and of an argument of \<^verbatim>\<open>require_role\<close>.\<close>

definition str_of :: "world \<Rightarrow> json \<Rightarrow> string" where
  "str_of w v = (case v of JStr s \<Rightarrow> s | _ \<Rightarrow> w_str w v)"

fun str_of_role :: "role_arg \<Rightarrow> string" where
  "str_of_role (RoleEnum r) = role_str r"
| "str_of_role (RoleStr s) = s"

definition test_require_role ::
  "role_arg list \<Rightarrow> world \<Rightarrow> settings \<Rightarrow> guard_request \<Rightarrow> http_exception + json" where
  "test_require_role allowed_roles w settings request =
     (case get_token_from_request request of
        None \<Rightarrow> Inl (unauthorized www_authenticate)
      | Some token \<Rightarrow>
          (case auth_decode_access_token w settings token of
             None \<Rightarrow> Inl (unauthorized [])
           | Some payload \<Rightarrow>
               (let is_active = get_default payload ''is_active'' (JBool True)
                in if \<not> truthy is_active then Inl forbidden_inactive
                   else
                     (let user_role = get payload ''role'';
                          user_role_normalized =
                            (if truthy user_role then Some (lower w (str_of w user_role)) else None);
                          allowed_role_strings = map (\<lambda>role. lower w (str_of_role role)) allowed_roles
                      in if (case user_role_normalized of
                               None \<Rightarrow> True
                             | Some r \<Rightarrow> r \<notin> set allowed_role_strings)
                           then Inl (HTTPException 403
                                  (''Not enough permissions. Required roles: ''
                                     @ w_str w (JArr (map JStr allowed_role_strings))
                                     @ '', User role: '' @ str_of w user_role) [])
                         else
                           (let user_id = get payload ''sub''
                            in if user_id = JNull then Inl (unauthorized [])
                               else Inr user_id)))))"

subsection \<open>User service\<close>

definition user_admin_dict :: "(string \<times> pyval) list" where
  "user_admin_dict = [(''id'', PNone), (''user_id'', PNone), (''username'', PStr ''admin''),
     (''email'', PNone), (''name'', PStr ''Admin''), (''user_role'', PRole ADMIN),
     (''is_active'', PBool True), (''is_admin'', PBool True)]"

text \<open>
  \<^verbatim>\<open>get_current_user\<close>: the bearer scheme of this service always hands over credentials;
  the database is the list of rows of the users table, and \<^verbatim>\<open>.first()\<close> is the first
  row that matches. A null \<open>is_active\<close> column is falsy.
\<close>

definition user_get_current_user ::
  "world \<Rightarrow> settings \<Rightarrow> user list \<Rightarrow> string \<Rightarrow> bool \<Rightarrow> http_exception + principal" where
  "user_get_current_user w settings db token allow_inactive =
     (case auth_decode_access_token w settings token of
        None \<Rightarrow> Inl (unauthorized www_authenticate)
      | Some payload \<Rightarrow>
          (let role = get payload ''role''; sub = get payload ''sub''
           in if role = JStr (role_value ADMIN) \<and> sub = JNull then Inr (UserDict user_admin_dict)
              else if sub = JNull then Inl (unauthorized [])
              else
                (case find (\<lambda>u. JStr (user_id u) = sub) db of
                   None \<Rightarrow> Inl (HTTPException 401 ''User not found'' [])
                 | Some u \<Rightarrow>
                     if \<not> allow_inactive \<and> is_active u \<noteq> Some True
                       then Inl (HTTPException 403 ''User account is inactive'' [])
                     else Inr (UserRow u))))"

text \<open>
  \<^verbatim>\<open>user_role not in allowed_roles\<close>, negated. The members of the role enumeration are
  strings too: a member equals itself and the plain string of its value.
  \<^verbatim>\<open>require_role\<close> obtains the current user from \<^verbatim>\<open>get_current_user\<close> as a dependency,
  whose plain parameter \<^verbatim>\<open>allow_inactive\<close> (default false) the framework fills from the
  query string of the request: it is a parameter of the guard.
\<close>

fun role_equals :: "pyval \<Rightarrow> role_arg \<Rightarrow> bool" where
  "role_equals (PRole r) (RoleEnum r') = (r = r')"
| "role_equals (PRole r) (RoleStr s) = (role_value r = s)"
| "role_equals (PStr s) (RoleEnum r) = (s = role_value r)"
| "role_equals (PStr s) (RoleStr s') = (s = s')"
| "role_equals v a = False"

definition user_require_role ::
  "role_arg list \<Rightarrow> world \<Rightarrow> settings \<Rightarrow> user list \<Rightarrow> string \<Rightarrow> bool
    \<Rightarrow> http_exception + principal" where
  "user_require_role allowed_roles w settings db token allow_inactive =
     (case user_get_current_user w settings db token allow_inactive of
        Inl e \<Rightarrow> Inl e
      | Inr current_user \<Rightarrow>
          (let user_role =
                 (case current_user of
                    UserDict d \<Rightarrow> (case map_of d ''user_role'' of None \<Rightarrow> PNone | Some v \<Rightarrow> v)
                  | UserRow u \<Rightarrow> PRole (user_role u)
                  | UserId v \<Rightarrow> PNone)
           in if \<not> list_ex (role_equals user_role) allowed_roles
                then Inl (HTTPException 403 ''Not enough permissions'' [])
              else Inr current_user))"

section \<open>Worked requests\<close>

text \<open>A request that carries a token in its \<open>Authorization\<close> header, as the bearer scheme reads it.\<close>

definition bearer_request :: "string \<Rightarrow> guard_request" where
  "bearer_request token = \<lparr>credentials = Some token, authorization = Some (''Bearer '' @ token)\<rparr>"

section \<open>Token issuer (auth service)\<close>

text \<open>
  \<^verbatim>\<open>verify_password\<close>: the SHA-256 pre-hash and the bcrypt comparison are the hash check
  of the surroundings.
\<close>

definition verify_password :: "world \<Rightarrow> string \<Rightarrow> string \<Rightarrow> bool" where
  "verify_password w plain_password hashed =
     (if plain_password = [] \<or> hashed = [] then False
      else w_checkpw w plain_password hashed)"

text \<open>
  The user dictionary that \<^verbatim>\<open>authenticate_user\<close> returns, with its fixed keys as fields
  (the key \<open>id\<close> exists for the admin only, with value \<^verbatim>\<open>None\<close>).
\<close>

record user_data =
  ud_user_id :: "string option"
  ud_username :: string
  ud_email :: "string option"
  ud_name :: string
  ud_user_role :: UserRole
  ud_is_active :: "bool option"
  ud_is_admin :: bool

definition authenticate_user :: "world \<Rightarrow> settings \<Rightarrow> user list \<Rightarrow> string \<Rightarrow> string \<Rightarrow> user_data option" where
  "authenticate_user w settings db uname password =
     (if uname = ADMIN_USERNAME settings \<and> password = ADMIN_PASSWORD_HASH settings
      then Some \<lparr>ud_user_id = None, ud_username = ADMIN_USERNAME settings, ud_email = None,
                 ud_name = ''Admin'', ud_user_role = ADMIN, ud_is_active = Some True, ud_is_admin = True\<rparr>
      else
        (case find (\<lambda>u. username u = uname) db of
           None \<Rightarrow> None
         | Some user \<Rightarrow>
             if \<not> verify_password w password (hashed_password user) then None
             else Some \<lparr>ud_user_id = Some (user_id user), ud_username = username user,
                        ud_email = Some (email user), ud_name = name user,
                        ud_user_role = user_role user, ud_is_active = is_active user,
                        ud_is_admin = False\<rparr>))"

text \<open>
  \<^verbatim>\<open>create_access_token\<close>. A \<^verbatim>\<open>timedelta\<close> is a number of seconds; a zero one is falsy.
  The token that \<^verbatim>\<open>jwt.encode\<close> returns is given as the library reads it back: signed
  with the algorithm and the key of the settings, over the claims.
\<close>

definition create_access_token :: "world \<Rightarrow> settings \<Rightarrow> claims \<Rightarrow> int option \<Rightarrow> jws" where
  "create_access_token w settings data expires_delta =
     (let to_encode = data;
          now = w_now w;
          expire = now + (case expires_delta of
                            Some d \<Rightarrow> if d \<noteq> 0 then d else 60 * ACCESS_TOKEN_EXPIRE_MINUTES settings
                          | None \<Rightarrow> 60 * ACCESS_TOKEN_EXPIRE_MINUTES settings);
          to_encode1 = dict_set to_encode ''exp'' (JInt expire);
          to_encode2 = dict_set to_encode1 ''iat'' (JInt now);
          to_encode3 = dict_set to_encode2 ''iss'' (JStr ''ims-auth-service'')
      in Signed (ALGORITHM settings) (SECRET_KEY settings) to_encode3)"

text \<open>\<^verbatim>\<open>create_access_token_for_user\<close>: the \<open>sub\<close> claim is set for a user who is not the admin and has a non-empty identifier.\<close>

definition create_access_token_for_user :: "world \<Rightarrow> settings \<Rightarrow> user_data \<Rightarrow> jws" where
  "create_access_token_for_user w settings user_data =
     (let access_token_expires = 60 * ACCESS_TOKEN_EXPIRE_MINUTES settings;
          role_value = role_value (ud_user_role user_data);
          token_data = [(''role'', JStr role_value),
                        (''is_active'', (case ud_is_active user_data of None \<Rightarrow> JNull | Some b \<Rightarrow> JBool b))];
          token_data' =
            (if \<not> ud_is_admin user_data
                \<and> (case ud_user_id user_data of None \<Rightarrow> False | Some i \<Rightarrow> i \<noteq> [])
             then dict_set token_data ''sub''
                    (case ud_user_id user_data of None \<Rightarrow> JNull | Some i \<Rightarrow> JStr i)
             else token_data)
      in create_access_token w settings token_data' (Some access_token_expires))"

text \<open>
  The login endpoint: the response, and the background tasks it schedules (the arguments
  of the workflow notifier).
\<close>

record workflow_task =
  task_user_id :: json
  task_action :: string
  task_entity_type :: "string option"
  task_relevant_id :: "string option"

record login_user =
  lu_id :: "string option"
  lu_user_id :: "string option"
  lu_username :: string
  lu_email :: "string option"
  lu_name :: string
  lu_role :: string
  lu_is_active :: "bool option"
  lu_is_admin :: bool

record login_response =
  access_token :: jws
  token_type :: string
  login_user :: login_user

definition login ::
  "world \<Rightarrow> settings \<Rightarrow> user list \<Rightarrow> string \<Rightarrow> string
    \<Rightarrow> (http_exception + login_response) \<times> workflow_task list" where
  "login w settings db uname password =
     (case authenticate_user w settings db uname password of
        None \<Rightarrow> (Inl (HTTPException 401 ''Incorrect username or password'' www_authenticate), [])
      | Some user_data \<Rightarrow>
          (let access_token = create_access_token_for_user w settings user_data;
               user_id = ud_user_id user_data;
               background_tasks =
                 (case user_id of
                    None \<Rightarrow> []
                  | Some i \<Rightarrow>
                      if i \<noteq> []
                      then [\<lparr>task_user_id = JStr i, task_action = ''User Login'',
                              task_entity_type = Some ''USER'', task_relevant_id = Some i\<rparr>]
                      else [])
           in (Inr \<lparr>access_token = access_token, token_type = ''bearer'',
                     login_user = \<lparr>lu_id = user_id, lu_user_id = user_id,
                       lu_username = ud_username user_data, lu_email = ud_email user_data,
                       lu_name = ud_name user_data, lu_role = role_value (ud_user_role user_data),
                       lu_is_active = ud_is_active user_data, lu_is_admin = ud_is_admin user_data\<rparr>\<rparr>,
               background_tasks)))"

text \<open>The claims of a token as the library reads it.\<close>

fun claims_of :: "jws \<Rightarrow> claims" where
  "claims_of (Signed alg key claims) = claims"
| "claims_of (Malformed msg) = []"

text \<open>Two accounts for worked instances: a patient, and an account whose stored role is admin.\<close>

definition example_db :: "user list" where
  "example_db =
    [\<lparr>user_id = ''PAT-000012'', username = ''alice'', email = ''alice@example.org'', name = ''Alice'',
       hashed_password = ''hash-of-wonderland'', user_role = PATIENT, is_active = Some True\<rparr>,
     \<lparr>user_id = ''USR-000001'', username = ''root'', email = ''root@example.org'', name = ''Root'',
       hashed_password = ''hash-of-toor'', user_role = ADMIN, is_active = Some True\<rparr>]"

text \<open>
  The claims of a token issued at the time of the clock: the given claims, then \<open>exp\<close> (now
  plus the configured lifetime), \<open>iat\<close> and \<open>iss\<close>.
\<close>

definition issued_claims :: "world \<Rightarrow> settings \<Rightarrow> claims \<Rightarrow> claims" where
  "issued_claims w settings data =
     data @ [(''exp'', JInt (w_now w + 60 * ACCESS_TOKEN_EXPIRE_MINUTES settings)),
             (''iat'', JInt (w_now w)), (''iss'', JStr ''ims-auth-service'')]"

text \<open>The claims of the token in the outcome of a login (none when login failed).\<close>

definition token_claims :: "(http_exception + login_response) \<times> workflow_task list \<Rightarrow> claims" where
  "token_claims served = (case fst served of Inl e \<Rightarrow> [] | Inr resp \<Rightarrow> claims_of (access_token resp))"

section \<open>Fire-and-forget notifier\<close>

text \<open>
  \<^verbatim>\<open>workflow_logger.py\<close> of the diagnostic-report service. The call \<^verbatim>\<open>client.post\<close> either
  returns a response (status code and text) or raises an exception of the HTTP client: a
  timeout, a connection error, or any other, each with its \<^verbatim>\<open>str(e)\<close>.
\<close>

record post_request =
  post_url :: string
  post_json :: "(string \<times> json) list"
  post_headers :: "(string \<times> string) list"

datatype post_outcome = Responded nat string | PostRaised client_error

text \<open>The lines the notifier prints.\<close>

datatype log_line = LoggingFailed nat string | ErrorLogging string

text \<open>\<^verbatim>\<open>str(e)\<close>\<close>

fun error_message :: "client_error \<Rightarrow> string" where
  "error_message (TimeoutException m) = m"
| "error_message (ConnectError m) = m"
| "error_message (OtherException m) = m"

text \<open>\<^verbatim>\<open>try: body except Exception as e: handler\<close>, with \<^const>\<open>Inl\<close> for a raised exception.\<close>

definition try_except :: "('e + 'a) \<Rightarrow> ('e \<Rightarrow> 'e + 'a) \<Rightarrow> 'e + 'a" where
  "try_except body handler = (case body of Inl e \<Rightarrow> handler e | Inr v \<Rightarrow> Inr v)"

definition json_of_optional :: "string option \<Rightarrow> json" where
  "json_of_optional v = (case v of None \<Rightarrow> JNull | Some s \<Rightarrow> JStr s)"

text \<open>
  The result is \<^const>\<open>Inl\<close> of an exception that leaves the function, or \<^const>\<open>Inr\<close> of the
  lines printed when the function returns.
\<close>

definition log_workflow_action_async ::
  "settings \<Rightarrow> (post_request \<Rightarrow> post_outcome) \<Rightarrow> json \<Rightarrow> string \<Rightarrow> string option \<Rightarrow> string option
    \<Rightarrow> client_error + log_line list" where
  "log_workflow_action_async settings post uid action entity_type relevant_id =
     (let api_gateway_url = API_GATEWAY_URL settings
      in try_except
           (let data = [(''user_id'', uid), (''action'', JStr action),
                        (''entity_type'', json_of_optional entity_type),
                        (''relevant_id'', json_of_optional relevant_id)]
            in (case post \<lparr>post_url = api_gateway_url @ ''/api/v1/workflow/logs'', post_json = data,
                             post_headers = [(''Content-Type'', ''application/json'')]\<rparr> of
                  PostRaised e \<Rightarrow> Inl e
                | Responded status text \<Rightarrow>
                    if status \<notin> set [200, 201] then Inr [LoggingFailed status text]
                    else Inr []))
           (\<lambda>e. Inr [ErrorLogging (error_message e)]))"

text \<open>
  \<^verbatim>\<open>create_report\<close> of the diagnostic-report service: the database work and its result
  (the new report, or the exception it raises) are a parameter; on success the endpoint
  schedules the notifier as a background task and returns the report with status 201.
\<close>

definition create_report ::
  "(http_exception + 'report) \<Rightarrow> ('report \<Rightarrow> string) \<Rightarrow> json
    \<Rightarrow> (http_exception + nat \<times> 'report) \<times> workflow_task list" where
  "create_report created report_id current_user_id =
     (case created of
        Inl e \<Rightarrow> (Inl e, [])
      | Inr new_report \<Rightarrow>
          (Inr (201, new_report),
           [\<lparr>task_user_id = current_user_id, task_action = ''Create Report'',
             task_entity_type = Some ''REPORT'', task_relevant_id = Some (report_id new_report)\<rparr>]))"

text \<open>
  The framework sends the response of an endpoint and then runs its background tasks:
  the request as a whole yields the response and the outcomes of the tasks.
\<close>

definition run_task ::
  "settings \<Rightarrow> (post_request \<Rightarrow> post_outcome) \<Rightarrow> workflow_task \<Rightarrow> client_error + log_line list" where
  "run_task settings post task =
     log_workflow_action_async settings post (task_user_id task) (task_action task)
       (task_entity_type task) (task_relevant_id task)"

definition respond_then_run ::
  "settings \<Rightarrow> (post_request \<Rightarrow> post_outcome) \<Rightarrow> 'response \<times> workflow_task list
    \<Rightarrow> 'response \<times> (client_error + log_line list) list" where
  "respond_then_run settings post served = (fst served, map (run_task settings post) (snd served))"

text \<open>Five logging endpoints for worked instances: one that accepts, and four ways to fail.\<close>

definition post_created :: "post_request \<Rightarrow> post_outcome" where
  "post_created r = Responded 201 ''{}''"

definition post_server_error :: "post_request \<Rightarrow> post_outcome" where
  "post_server_error r = Responded 500 ''Internal Server Error''"

definition post_timeout :: "post_request \<Rightarrow> post_outcome" where
  "post_timeout r = PostRaised (TimeoutException ''timed out'')"

definition post_refused :: "post_request \<Rightarrow> post_outcome" where
  "post_refused r = PostRaised (ConnectError ''[Errno 111] Connection refused'')"

definition post_broken :: "post_request \<Rightarrow> post_outcome" where
  "post_broken r = PostRaised (OtherException ''Invalid URL'')"

section \<open>Routing: the longest configured prefix decides\<close>

lemma first_match_forward_path:
  "first_match m ks p = Some (b, fp) \<Longrightarrow> fp = p"
  by (induction ks) (auto split: if_splits)

lemma first_match_Some:
  "first_match m ks p = Some r \<Longrightarrow> \<exists>k \<in> set ks. prefix k p"
  by (induction ks) (auto split: if_splits)

lemma first_match_lookup:
  assumes "sorted (map f ks)" "set ks \<subseteq> fst ` set m"
      and "k0 \<in> set ks" "prefix k0 p"
  shows "\<exists>k b. k \<in> set ks \<and> prefix k p \<and> map_of m k = Some b \<and> first_match m ks p = Some (b, p)
          \<and> (\<forall>k' \<in> set ks. prefix k' p \<longrightarrow> f k \<le> f k')"
  using assms
proof (induction ks)
  case Nil then show ?case by simp
next
  case (Cons a ks)
  show ?case
  proof (cases "prefix a p")
    case True
    from Cons.prems(2) have "a \<in> fst ` set m" by simp
    then obtain b where b: "map_of m a = Some b"
      by (metis map_of_eq_None_iff not_None_eq)
    with True Cons.prems(1) show ?thesis by (intro exI[of _ a] exI[of _ b]) auto
  next
    case False
    with Cons.prems have "k0 \<in> set ks" by auto
    with Cons.IH Cons.prems False obtain k b where
      "k \<in> set ks" "prefix k p" "map_of m k = Some b" "first_match m ks p = Some (b, p)"
      "\<forall>k' \<in> set ks. prefix k' p \<longrightarrow> f k \<le> f k'" by auto
    with False show ?thesis by (intro exI[of _ k] exI[of _ b]) auto
  qed
qed

lemma prefix_same_length: "prefix a p \<Longrightarrow> prefix b p \<Longrightarrow> length a = length b \<Longrightarrow> a = b"
  by (metis prefix_length_prefix prefix_order.antisym order_refl)

lemma find_target_service_in_longest:
  assumes k0: "k0 \<in> fst ` set mappings" "prefix k0 (normalize_path path)"
  shows "\<exists>k b. map_of mappings k = Some b \<and> prefix k (normalize_path path)
           \<and> (\<forall>k' \<in> fst ` set mappings. prefix k' (normalize_path path) \<longrightarrow> length k' \<le> length k)
           \<and> find_target_service_in mappings path = Some (b, normalize_path path)"
proof -
  let ?f = "\<lambda>k. - int (length k)"
  have "sorted (map ?f (sorted_paths mappings))"
    unfolding sorted_paths_def by (rule sorted_sort_key)
  moreover have s: "set (sorted_paths mappings) = fst ` set mappings"
    by (simp add: sorted_paths_def)
  ultimately obtain k b where
    "k \<in> set (sorted_paths mappings)" "prefix k (normalize_path path)" "map_of mappings k = Some b"
    "first_match mappings (sorted_paths mappings) (normalize_path path) = Some (b, normalize_path path)"
    "\<forall>k' \<in> set (sorted_paths mappings). prefix k' (normalize_path path) \<longrightarrow> ?f k \<le> ?f k'"
    using first_match_lookup[of ?f "sorted_paths mappings" mappings k0 "normalize_path path"] k0
    by auto
  then show ?thesis
    unfolding find_target_service_in_def Let_def s by (intro exI[of _ k] exI[of _ b]) auto
qed

text \<open>
  Claim C3. Over any routing table with distinct keys: when two distinct configured prefixes
  both prefix the normalized path, the path matcher returns the backend registered under a
  matching prefix that is strictly longer than the shorter of the two and at least as long
  as the longer, and that no matching prefix exceeds in length; when the longer of the two
  is itself of that maximal length, the backend is the one registered under it. And
  whenever the matcher resolves a path, the forward path is the whole normalized path.
\<close>

theorem find_target_service_longest_prefix:
  "(distinct (map fst mappings) \<and> (p1, b1) \<in> set mappings \<and> (p2, b2) \<in> set mappings \<and> p1 \<noteq> p2
     \<and> prefix p1 (normalize_path path) \<and> prefix p2 (normalize_path path) \<and> length p2 \<le> length p1
    \<longrightarrow> (\<exists>k b. (k, b) \<in> set mappings \<and> prefix k (normalize_path path)
           \<and> length p2 < length k \<and> length p1 \<le> length k
           \<and> (\<forall>k' \<in> fst ` set mappings. prefix k' (normalize_path path) \<longrightarrow> length k' \<le> length k)
           \<and> find_target_service_in mappings path = Some (b, normalize_path path)
           \<and> (length k = length p1 \<longrightarrow> b = b1)))
   \<and> (find_target_service_in mappings path = Some (base_url, forward_path)
        \<longrightarrow> forward_path = normalize_path path)"
proof (intro conjI impI)
  assume h: "distinct (map fst mappings) \<and> (p1, b1) \<in> set mappings \<and> (p2, b2) \<in> set mappings \<and> p1 \<noteq> p2
     \<and> prefix p1 (normalize_path path) \<and> prefix p2 (normalize_path path) \<and> length p2 \<le> length p1"
  let ?np = "normalize_path path"
  from h have k1: "p1 \<in> fst ` set mappings" and k2: "p2 \<in> fst ` set mappings"
    by (auto simp: image_iff intro: bexI[of _ "(p1, b1)"] bexI[of _ "(p2, b2)"])
  from find_target_service_in_longest[OF k1] h obtain k b where kb:
    "map_of mappings k = Some b" "prefix k ?np"
    "\<forall>k' \<in> fst ` set mappings. prefix k' ?np \<longrightarrow> length k' \<le> length k"
    "find_target_service_in mappings path = Some (b, ?np)" by blast
  from kb(1) have mem: "(k, b) \<in> set mappings" by (rule map_of_SomeD)
  from kb(3) k1 h have l1: "length p1 \<le> length k" by blast
  from h have "length p2 \<noteq> length p1" using prefix_same_length[of p1 ?np p2] by auto
  with h l1 have l2: "length p2 < length k" by linarith
  have "b = b1" if "length k = length p1"
  proof -
    from that kb(2) h have "k = p1" using prefix_same_length[of k ?np p1] by auto
    moreover from h have "map_of mappings p1 = Some b1" by (simp add: map_of_is_SomeI)
    ultimately show ?thesis using kb(1) by simp
  qed
  with mem kb l1 l2 show "\<exists>k b. (k, b) \<in> set mappings \<and> prefix k ?np
           \<and> length p2 < length k \<and> length p1 \<le> length k
           \<and> (\<forall>k' \<in> fst ` set mappings. prefix k' ?np \<longrightarrow> length k' \<le> length k)
           \<and> find_target_service_in mappings path = Some (b, ?np)
           \<and> (length k = length p1 \<longrightarrow> b = b1)"
    by (intro exI[of _ k] exI[of _ b]) simp
next
  assume "find_target_service_in mappings path = Some (base_url, forward_path)"
  then show "forward_path = normalize_path path"
    by (auto simp: find_target_service_in_def Let_def dest: first_match_forward_path)
qed

theorem find_target_service_longest_prefix_witness:
  "distinct (map fst [(''/api'', ''http://coarse:1''), (''/api/v1'', ''http://fine:2'')])
   \<and> prefix ''/api/v1'' (normalize_path ''api/v1/x'') \<and> prefix ''/api'' (normalize_path ''api/v1/x'')
   \<and> length ''/api'' \<le> length ''/api/v1''
   \<and> find_target_service_in [(''/api'', ''http://coarse:1''), (''/api/v1'', ''http://fine:2'')] ''api/v1/x''
       = Some (''http://fine:2'', ''/api/v1/x'')"
  using find_target_service_longest_prefix
    [of "[(''/api'', ''http://coarse:1''), (''/api/v1'', ''http://fine:2'')]"
        "''/api/v1''" "''http://fine:2''" "''/api''" "''http://coarse:1''" "''api/v1/x''"
        "''http://fine:2''" "''/api/v1/x''"]
  by (simp add: normalize_path_def find_target_service_in_def sorted_paths_def)

section \<open>Gateway: error outcomes\<close>

lemma find_target_service_None:
  assumes "\<forall>k \<in> fst ` set SERVICE_MAPPINGS. \<not> prefix k (normalize_path path)"
  shows "find_target_service path = None"
proof (cases "find_target_service path")
  case None then show ?thesis .
next
  case (Some r)
  then have "first_match SERVICE_MAPPINGS (sorted_paths SERVICE_MAPPINGS) (normalize_path path) = Some r"
    by (simp add: find_target_service_def find_target_service_in_def)
  then obtain k where "k \<in> set (sorted_paths SERVICE_MAPPINGS)" "prefix k (normalize_path path)"
    using first_match_Some by blast
  then have "k \<in> fst ` set SERVICE_MAPPINGS" "prefix k (normalize_path path)"
    by (simp_all add: sorted_paths_def)
  with assms show ?thesis by blast
qed

lemma normalize_path_idem: "normalize_path (normalize_path p) = normalize_path p"
  by (simp add: normalize_path_def)

lemma full_path_normalize: "(if \<not> prefix ''/'' path then ''/'' @ path else path) = normalize_path path"
  by (simp add: normalize_path_def)

text \<open>
  Claim C5. The router answers three paths itself (the empty path, \<open>/\<close> and \<open>health\<close>) and
  routes every other path. For every routed path: when no configured prefix prefixes the
  normalized path, the router raises 404 and sends nothing upstream; and when the path
  resolves to a backend, a timeout of the upstream call gives 504, a connection failure 503,
  and any other exception 500 whose detail carries the exception's message.
\<close>

theorem gateway_router_errors:
  "(path \<noteq> '''' \<and> path \<noteq> ''/'' \<and> path \<noteq> ''health''
      \<and> \<not> (\<exists>k \<in> fst ` set SERVICE_MAPPINGS. prefix k (normalize_path path))
     \<longrightarrow> gateway_router client request path
           = (Inl (HTTPException 404 (''Route not found: '' @ normalize_path path) []), []))
   \<and> (path \<noteq> '''' \<and> path \<noteq> ''/'' \<and> path \<noteq> ''health''
      \<and> find_target_service (normalize_path path) = Some (target_url, forward_path)
     \<longrightarrow> (client (forwarded_request request target_url forward_path) = Raised (TimeoutException m)
            \<longrightarrow> fst (gateway_router client request path) = Inl (HTTPException 504 ''Gateway timeout'' []))
         \<and> (client (forwarded_request request target_url forward_path) = Raised (ConnectError m)
            \<longrightarrow> fst (gateway_router client request path) = Inl (HTTPException 503 ''Service unavailable'' []))
         \<and> (client (forwarded_request request target_url forward_path) = Raised (OtherException m)
            \<longrightarrow> fst (gateway_router client request path) = Inl (HTTPException 500 (''Gateway error: '' @ m) [])))"
proof (intro conjI impI)
  assume h: "path \<noteq> '''' \<and> path \<noteq> ''/'' \<and> path \<noteq> ''health''
      \<and> \<not> (\<exists>k \<in> fst ` set SERVICE_MAPPINGS. prefix k (normalize_path path))"
  then have "\<forall>k \<in> fst ` set SERVICE_MAPPINGS. \<not> prefix k (normalize_path (normalize_path path))"
    by (simp add: normalize_path_idem)
  then have "find_target_service (normalize_path path) = None"
    by (rule find_target_service_None)
  with h show "gateway_router client request path
           = (Inl (HTTPException 404 (''Route not found: '' @ normalize_path path) []), [])"
    by (simp add: gateway_router_def full_path_normalize del: One_nat_def)
qed (simp_all add: gateway_router_def full_path_normalize proxy_request_def Let_def)


theorem gateway_router_errors_witness:
  "(''api/v1/unknown-thing'' \<noteq> '''' \<and> ''api/v1/unknown-thing'' \<noteq> ''/'' \<and> ''api/v1/unknown-thing'' \<noteq> ''health''
      \<and> \<not> (\<exists>k \<in> fst ` set SERVICE_MAPPINGS. prefix k (normalize_path ''api/v1/unknown-thing''))
      \<and> gateway_router backend_timing_out plain_get ''api/v1/unknown-thing''
           = (Inl (HTTPException 404 ''Route not found: /api/v1/unknown-thing'' []), []))
   \<and> (find_target_service (normalize_path ''api/v1/patients'') = Some (''http://patient-service:5003'', ''/api/v1/patients'')
      \<and> fst (gateway_router backend_timing_out plain_get ''api/v1/patients'') = Inl (HTTPException 504 ''Gateway timeout'' [])
      \<and> fst (gateway_router backend_refusing plain_get ''api/v1/patients'') = Inl (HTTPException 503 ''Service unavailable'' [])
      \<and> fst (gateway_router backend_failing plain_get ''api/v1/patients'') = Inl (HTTPException 500 ''Gateway error: Invalid URL'' []))"
proof -
  have f: "find_target_service (normalize_path ''api/v1/patients'') = Some (''http://patient-service:5003'', ''/api/v1/patients'')"
    by (simp add: find_target_service_def find_target_service_in_def normalize_path_def sorted_paths_def SERVICE_MAPPINGS_def)
  have n: "\<not> (\<exists>k \<in> fst ` set SERVICE_MAPPINGS. prefix k (normalize_path ''api/v1/unknown-thing''))"
    by (simp add: SERVICE_MAPPINGS_def normalize_path_def)
  have a: "gateway_router backend_timing_out plain_get ''api/v1/unknown-thing''
           = (Inl (HTTPException 404 ''Route not found: /api/v1/unknown-thing'' []), [])"
    using n gateway_router_errors [where path="''api/v1/unknown-thing''" and client=backend_timing_out
        and request=plain_get, THEN conjunct1]
    by (simp add: normalize_path_def)
  have b: "fst (gateway_router backend_timing_out plain_get ''api/v1/patients'') = Inl (HTTPException 504 ''Gateway timeout'' [])"
    using f gateway_router_errors [where path="''api/v1/patients''" and target_url="''http://patient-service:5003''"
         and forward_path="''/api/v1/patients''" and client=backend_timing_out and request=plain_get
         and m="''timed out''", THEN conjunct2]
    by (simp add: backend_timing_out_def)
  have c: "fst (gateway_router backend_refusing plain_get ''api/v1/patients'') = Inl (HTTPException 503 ''Service unavailable'' [])"
    using f gateway_router_errors [where path="''api/v1/patients''" and target_url="''http://patient-service:5003''"
         and forward_path="''/api/v1/patients''" and client=backend_refusing and request=plain_get
         and m="''All connection attempts failed''", THEN conjunct2]
    by (simp add: backend_refusing_def)
  have d: "fst (gateway_router backend_failing plain_get ''api/v1/patients'') = Inl (HTTPException 500 ''Gateway error: Invalid URL'' [])"
    using f gateway_router_errors [where path="''api/v1/patients''" and target_url="''http://patient-service:5003''"
         and forward_path="''/api/v1/patients''" and client=backend_failing and request=plain_get
         and m="''Invalid URL''", THEN conjunct2]
    by (simp add: backend_failing_def)
  from a b c d f n show ?thesis by simp
qed

text \<open>
  The paths the router answers itself never reach the path matcher: \<open>health\<close> gets the
  liveness payload, and nothing is sent upstream.
\<close>

lemma gateway_router_health_local:
  "find_target_service ''health'' = None
   \<and> gateway_router backend_timing_out plain_get ''health''
       = (Inr (Json [(''status'', ''healthy''), (''service'', ''api-gateway'')]), [])"
  by (simp add: find_target_service_def find_target_service_in_def normalize_path_def sorted_paths_def
        SERVICE_MAPPINGS_def gateway_router_def)

section \<open>Gateway: what the forwarder preserves\<close>

lemma dict_first_distinct: "distinct (map fst xs) \<Longrightarrow> dict_first xs = xs"
proof (induction xs)
  case Nil then show ?case by simp
next
  case (Cons a xs)
  obtain k v where a: "a = (k, v)" by (cases a)
  from Cons.prems a have "\<forall>kv \<in> set xs. fst kv \<noteq> k" by auto
  then have "filter (\<lambda>kv. fst kv \<noteq> k) xs = xs" by (simp add: filter_id_conv)
  with Cons a show ?case by simp
qed

lemma dict_set_fresh: "k \<notin> fst ` set d \<Longrightarrow> dict_set d k v = d @ [(k, v)]"
  by (induction d) auto

lemma dict_last_acc:
  "distinct (map fst (acc @ xs)) \<Longrightarrow> fold (\<lambda>kv d. dict_set d (fst kv) (snd kv)) xs acc = acc @ xs"
proof (induction xs arbitrary: acc)
  case Nil then show ?case by simp
next
  case (Cons a xs)
  from Cons.prems have "fst a \<notin> fst ` set acc" by auto
  then have "dict_set acc (fst a) (snd a) = acc @ [a]" by (simp add: dict_set_fresh)
  moreover from Cons.prems have "distinct (map fst ((acc @ [a]) @ xs))" by simp
  ultimately show ?case using Cons.IH[of "acc @ [a]"] by simp
qed

lemma dict_last_distinct: "distinct (map fst xs) \<Longrightarrow> dict_last xs = xs"
  using dict_last_acc[of "[]" xs] by (simp add: dict_last_def)

lemma filter_key_single:
  "distinct (map fst xs) \<Longrightarrow> (k, v) \<in> set xs \<Longrightarrow> filter (\<lambda>kv. fst kv = k) xs = [(k, v)]"
proof (induction xs)
  case Nil then show ?case by simp
next
  case (Cons a xs)
  show ?case
  proof (cases "a = (k, v)")
    case True
    with Cons.prems have "\<forall>kv \<in> set xs. fst kv \<noteq> k" by auto
    then have "filter (\<lambda>kv. fst kv = k) xs = []" by (simp add: filter_empty_conv)
    with True show ?thesis by simp
  next
    case False
    with Cons.prems have "(k, v) \<in> set xs" by simp
    moreover with Cons.prems have "fst a \<noteq> k" by (auto simp: image_iff)
    ultimately show ?thesis using Cons by simp
  qed
qed

lemma dict_joined_distinct:
  assumes "distinct (map fst xs)" shows "dict_joined xs = xs"
proof -
  have "map (\<lambda>kv. (fst kv, join_comma (map snd (filter (\<lambda>kv'. fst kv' = fst kv) xs)))) xs = map (\<lambda>kv. kv) xs"
  proof (rule map_cong[OF refl])
    fix kv assume "kv \<in> set xs"
    then have "filter (\<lambda>kv'. fst kv' = fst kv) xs = [(fst kv, snd kv)]"
      using filter_key_single[OF assms, of "fst kv" "snd kv"] by simp
    then show "(fst kv, join_comma (map snd (filter (\<lambda>kv'. fst kv' = fst kv) xs))) = kv" by simp
  qed
  then show ?thesis by (simp add: dict_joined_def dict_first_distinct[OF assms] comp_def)
qed

text \<open>
  When no query key and no header name is repeated, the forwarder sends the method, the
  query parameters and the body it received, and the headers without \<open>host\<close>,
  \<open>connection\<close> and \<open>content-length\<close>; and it relays status, content and headers without
  \<open>content-encoding\<close>, \<open>transfer-encoding\<close> and \<open>content-length\<close>, with the upstream
  content type as media type.
\<close>

lemma forwarded_request_frame:
  assumes "distinct (map fst (req_query_params request))" "distinct (map fst (req_headers request))"
  shows "up_method (forwarded_request request target_url path) = req_method request
       \<and> up_url (forwarded_request request target_url path) = target_url @ path
       \<and> up_params (forwarded_request request target_url path) = req_query_params request
       \<and> up_content (forwarded_request request target_url path) = req_body request
       \<and> up_headers (forwarded_request request target_url path)
           = filter (\<lambda>kv. fst kv \<notin> {''host'', ''connection'', ''content-length''}) (req_headers request)"
  using assms
  by (simp add: forwarded_request_def Let_def pop_def dict_first_distinct dict_last_distinct conj_commute del: insert_iff)
     (rule filter_cong, auto)

lemma relayed_response_frame:
  assumes "distinct (map fst (ur_headers r))"
  shows "content (relayed_response r) = ur_content r
       \<and> status_code (relayed_response r) = ur_status_code r
       \<and> headers (relayed_response r)
           = filter (\<lambda>kv. fst kv \<notin> {''content-encoding'', ''transfer-encoding'', ''content-length''}) (ur_headers r)
       \<and> media_type (relayed_response r) = map_of (ur_headers r) ''content-type''"
  using assms
  by (simp add: relayed_response_def Let_def pop_def dict_joined_distinct conj_commute del: insert_iff)
     (rule filter_cong, auto)

text \<open>
  Claim C6 at a request with a repeated query key: the gateway receives \<open>tag=a&tag=b\<close>
  and sends upstream \<open>tag=b\<close> only, so the query parameters are not the ones received.
\<close>

theorem proxy_request_repeated_query_key:
  "req_query_params repeated_key_get = [(''tag'', ''a''), (''tag'', ''b'')]
   \<and> map up_params (snd (proxy_request backend_timing_out repeated_key_get
        ''http://patient-service:5003'' ''/api/v1/patients'')) = [[(''tag'', ''b'')]]"
  by (simp add: repeated_key_get_def proxy_request_def forwarded_request_def dict_last_def Let_def)

section \<open>Validators: signature and expiry\<close>

lemma first_error_None:
  "first_error checks = None \<Longrightarrow> (enabled, r) \<in> set checks \<Longrightarrow> enabled \<Longrightarrow> r = None"
  by (induction checks) (auto split: if_splits option.splits)

lemma validate_claims_exp:
  assumes "validate_claims w c opts = None" "verify_exp opts"
  shows "validate_exp w c = None"
  using first_error_None[OF assms(1)[unfolded validate_claims_def], of "verify_exp opts" "validate_exp w c"] assms(2)
  by simp

lemma validate_exp_not_past:
  "validate_exp w c = None \<Longrightarrow> map_of c ''exp'' = Some v \<Longrightarrow> py_int w v = IntOk e \<Longrightarrow> \<not> e < w_now w"
  by (simp add: validate_exp_def split: if_splits)

lemma jwt_decode_Inr:
  assumes "jwt_decode w token key algs opts = Inr p" "verify_signature opts" "verify_exp opts"
  shows "signature_verifies w key token \<and> \<not> exp_in_past w token"
proof -
  from assms(1) have ne: "token \<noteq> []" by (auto simp: jwt_decode_def split: if_splits)
  with assms(1) obtain alg k c where v: "w_jws w token = Signed alg k c"
    by (cases "w_jws w token") (auto simp: jwt_decode_def)
  with assms ne have k: "k = key" and vc: "validate_claims w c opts = None"
    by (auto simp: jwt_decode_def split: if_splits option.splits)
  from vc assms(3) have "validate_exp w c = None" by (rule validate_claims_exp)
  then have "\<not> exp_in_past w token"
    using v by (auto simp: exp_in_past_def dest: validate_exp_not_past split: option.splits coerced.splits)
  with ne v k show ?thesis by (simp add: signature_verifies_def)
qed

lemma options_verify [simp]:
  "verify_signature auth_first_options" "verify_exp auth_first_options"
  "verify_signature auth_retry_options" "verify_exp auth_retry_options"
  "verify_signature patient_first_options" "verify_exp patient_first_options"
  "verify_signature patient_retry_options" "verify_exp patient_retry_options"
  "verify_signature staff_options" "verify_exp staff_options"
  by (simp_all add: auth_first_options_def auth_retry_options_def patient_first_options_def
        patient_retry_options_def staff_options_def defaults_def)

lemma auth_decode_Some:
  "auth_decode_access_token w s token = Some p \<Longrightarrow>
     signature_verifies w (SECRET_KEY s) token \<and> \<not> exp_in_past w token"
  by (auto simp: auth_decode_access_token_def Let_def
           split: if_splits sum.splits jose_error.splits dest: jwt_decode_Inr)

lemma patient_decode_Some:
  "patient_decode_access_token w s token = Some p \<Longrightarrow>
     signature_verifies w (SECRET_KEY s) token \<and> \<not> exp_in_past w token"
  by (auto simp: patient_decode_access_token_def Let_def
           split: if_splits sum.splits jose_error.splits dest: jwt_decode_Inr)

lemma staff_decode_Some:
  "staff_decode_access_token w s token = Some p \<Longrightarrow>
     signature_verifies w (SECRET_KEY s) token \<and> \<not> exp_in_past w token"
  by (auto simp: staff_decode_access_token_def split: sum.splits dest: jwt_decode_Inr)

lemma example_jws_simps:
  "w_jws example_world ''t-admin'' = Signed ''HS256'' ''shared-secret'' admin_payload"
  "w_jws example_world ''t-patient'' = Signed ''HS256'' ''shared-secret'' patient_payload"
  "w_jws example_world ''t-foreign'' = Signed ''HS256'' ''shared-secret'' foreign_payload"
  "w_jws example_world ''t-inactive'' = Signed ''HS256'' ''shared-secret'' inactive_payload"
  "w_jws example_world ''t-inactive-no-sub'' = Signed ''HS256'' ''shared-secret'' inactive_no_sub_payload"
  "w_jws example_world ''t-legacy'' = Signed ''HS256'' ''shared-secret'' legacy_payload"
  "w_jws example_world ''t-expired'' = Signed ''HS256'' ''shared-secret'' expired_payload"
  "w_jws example_world ''t-forged'' = Signed ''HS256'' ''another-secret'' admin_payload"
  "w_jws example_world ''t-inactive-admin'' = Signed ''HS256'' ''shared-secret'' inactive_admin_payload"
  by (simp_all add: example_world_def example_jws_def)

lemma example_now: "w_now example_world = 2000"
  by (simp add: example_world_def)

lemma example_key: "SECRET_KEY example_settings = ''shared-secret''" "ALGORITHM example_settings = ''HS256''"
  by (simp_all add: example_settings_def)

lemmas validators_defs = validate_claims_def validate_required_def validate_iat_def validate_nbf_def
  validate_exp_def validate_aud_def validate_sub_def validate_jti_def validate_at_hash_def is_str_def

text \<open>
  Claim C4. Whatever the claims of a token: when its signature does not verify under the
  shared secret, or its \<open>exp\<close> lies before the time of validation, the token validators
  (auth service, patient service, medical-staff service) return \<open>None\<close>.
\<close>

theorem decode_access_token_rejects_forged_and_expired:
  "\<not> signature_verifies w (SECRET_KEY settings) token \<or> exp_in_past w token
   \<longrightarrow> auth_decode_access_token w settings token = None
       \<and> patient_decode_access_token w settings token = None
       \<and> staff_decode_access_token w settings token = None"
proof (intro impI conjI)
  assume h: "\<not> signature_verifies w (SECRET_KEY settings) token \<or> exp_in_past w token"
  show "auth_decode_access_token w settings token = None"
    using h auth_decode_Some[of w settings token] by (cases "auth_decode_access_token w settings token") auto
  show "patient_decode_access_token w settings token = None"
    using h patient_decode_Some[of w settings token] by (cases "patient_decode_access_token w settings token") auto
  show "staff_decode_access_token w settings token = None"
    using h staff_decode_Some[of w settings token] by (cases "staff_decode_access_token w settings token") auto
qed

theorem decode_access_token_rejects_forged_and_expired_witness:
  "\<not> signature_verifies example_world (SECRET_KEY example_settings) ''t-forged''
   \<and> auth_decode_access_token example_world example_settings ''t-forged'' = None
   \<and> patient_decode_access_token example_world example_settings ''t-forged'' = None
   \<and> exp_in_past example_world ''t-expired''
   \<and> signature_verifies example_world (SECRET_KEY example_settings) ''t-expired''
   \<and> auth_decode_access_token example_world example_settings ''t-expired'' = None
   \<and> patient_decode_access_token example_world example_settings ''t-expired'' = None
   \<and> staff_decode_access_token example_world example_settings ''t-expired'' = None"
proof -
  have f: "\<not> signature_verifies example_world (SECRET_KEY example_settings) ''t-forged''"
    by (simp add: signature_verifies_def example_jws_simps example_key)
  have e: "exp_in_past example_world ''t-expired''"
    by (simp add: exp_in_past_def example_jws_simps example_now expired_payload_def)
  have v: "signature_verifies example_world (SECRET_KEY example_settings) ''t-expired''"
    by (simp add: signature_verifies_def example_jws_simps example_key)
  from f e v show ?thesis
    using decode_access_token_rejects_forged_and_expired[of example_world example_settings "''t-forged''"]
          decode_access_token_rejects_forged_and_expired[of example_world example_settings "''t-expired''"]
    by simp
qed

section \<open>Validators: the issuer claim\<close>

lemma jwt_decode_payload:
  "jwt_decode w token key algs opts = Inr p \<Longrightarrow> token \<noteq> [] \<and> (\<exists>alg k. w_jws w token = Signed alg k p)"
  by (cases "w_jws w token") (auto simp: jwt_decode_def split: if_splits option.splits)

lemma first_error_Some:
  "first_error checks = Some e \<Longrightarrow> (True, Some e) \<in> set checks"
proof (induction checks)
  case Nil then show ?case by simp
next
  case (Cons a checks)
  obtain enabled r where a: "a = (enabled, r)" by (cases a)
  show ?case
  proof (cases enabled)
    case True
    with Cons a show ?thesis by (cases r) simp_all
  next
    case False
    with Cons a show ?thesis by simp
  qed
qed

lemma lower_ascii: "is_ascii s \<Longrightarrow> lower w s = map lower_char s"
  by (simp add: lower_def)

lemma auth_first_messages_eval:
  "list_all (\<lambda>e. is_ascii e \<and> \<not> contains ''iss'' (map lower_char e)
       \<and> \<not> contains ''issuer'' (map lower_char e)) auth_first_messages"
  by code_simp

lemma auth_first_messages_no_iss:
  "e \<in> set auth_first_messages \<Longrightarrow> \<not> contains ''iss'' (lower w e) \<and> \<not> contains ''issuer'' (lower w e)"
  using auth_first_messages_eval by (auto simp: list_all_iff lower_ascii)

lemma validate_nbf_messages:
  "validate_nbf w c = Some (JWTError e) \<Longrightarrow>
     e = ''The token is not yet valid (nbf)'' \<or> e = ''Not Before claim (nbf) must be an integer.''"
  by (simp add: validate_nbf_def split: option.splits coerced.splits if_splits)

lemma validate_exp_messages:
  "validate_exp w c = Some (JWTError e) \<Longrightarrow>
     e = ''Signature has expired.'' \<or> e = ''Expiration Time claim (exp) must be an integer.''"
  by (simp add: validate_exp_def split: option.splits coerced.splits if_splits)

lemma validate_sub_messages:
  "validate_sub c = Some (JWTError e) \<Longrightarrow> e = ''Subject must be a string.''"
  by (simp add: validate_sub_def split: option.splits if_splits)

lemma validate_jti_messages:
  "validate_jti c = Some (JWTError e) \<Longrightarrow> e = ''JWT ID must be a string.''"
  by (simp add: validate_jti_def split: option.splits if_splits)

lemma validate_at_hash_messages:
  "validate_at_hash c = Some (JWTError e) \<Longrightarrow>
     e = ''No access_token provided to compare against at_hash claim.''"
  by (simp add: validate_at_hash_def split: option.splits)

lemma auth_first_options_fields:
  "\<not> require_aud auth_first_options" "\<not> require_iss auth_first_options" "\<not> require_sub auth_first_options"
  "\<not> verify_iat auth_first_options" "\<not> verify_aud auth_first_options"
  by (simp_all add: auth_first_options_def defaults_def)

lemma validate_claims_auth_messages:
  assumes "validate_claims w c auth_first_options = Some (JWTError e)"
  shows "e \<in> set auth_first_messages"
proof -
  from first_error_Some[OF assms[unfolded validate_claims_def]]
  have "validate_nbf w c = Some (JWTError e) \<or> validate_exp w c = Some (JWTError e)
        \<or> validate_sub c = Some (JWTError e) \<or> validate_jti c = Some (JWTError e)
        \<or> validate_at_hash c = Some (JWTError e)"
    by (auto simp: auth_first_options_fields validate_required_def)
  then show ?thesis
  proof (elim disjE)
    assume "validate_nbf w c = Some (JWTError e)"
    from validate_nbf_messages[OF this] show ?thesis
      by (elim disjE) (simp_all add: auth_first_messages_def)
  next
    assume "validate_exp w c = Some (JWTError e)"
    from validate_exp_messages[OF this] show ?thesis
      by (elim disjE) (simp_all add: auth_first_messages_def)
  next
    assume "validate_sub c = Some (JWTError e)"
    from validate_sub_messages[OF this] show ?thesis by (simp add: auth_first_messages_def)
  next
    assume "validate_jti c = Some (JWTError e)"
    from validate_jti_messages[OF this] show ?thesis by (simp add: auth_first_messages_def)
  next
    assume "validate_at_hash c = Some (JWTError e)"
    from validate_at_hash_messages[OF this] show ?thesis by (simp add: auth_first_messages_def)
  qed
qed

lemma jwt_decode_auth_error:
  assumes "w_jws w token = Signed alg k c" "token \<noteq> []"
      and "jwt_decode w token key algs auth_first_options = Inl (JWTError e)"
  shows "e \<in> set auth_first_messages"
proof -
  from assms have "e = ''The specified alg value is not allowed'' \<or> e = ''Signature verification failed.''
      \<or> validate_claims w c auth_first_options = Some (JWTError e)"
    by (simp add: jwt_decode_def split: if_splits option.splits)
  then show ?thesis
  proof (elim disjE)
    assume "e = ''The specified alg value is not allowed''"
    then show ?thesis by (simp add: auth_first_messages_def)
  next
    assume "e = ''Signature verification failed.''"
    then show ?thesis by (simp add: auth_first_messages_def)
  next
    assume "validate_claims w c auth_first_options = Some (JWTError e)"
    then show ?thesis by (rule validate_claims_auth_messages)
  qed
qed

lemma auth_decode_issuer_mismatch:
  assumes s: "w_jws w token = Signed alg k payload"
      and i: "map_of payload ''iss'' = Some iss" "iss \<noteq> JNull" "iss \<noteq> JStr ''ims-auth-service''"
  shows "auth_decode_access_token w settings token = None"
proof (cases "token = []")
  case True then show ?thesis by (simp add: auth_decode_access_token_def)
next
  case False
  show ?thesis
  proof (cases "jwt_decode w token (SECRET_KEY settings) [ALGORITHM settings] auth_first_options")
    case (Inr p)
    with s have "p = payload" by (auto dest: jwt_decode_payload)
    with Inr False i show ?thesis
      by (simp add: auth_decode_access_token_def get_def get_default_def)
  next
    case (Inl err)
    show ?thesis
    proof (cases err)
      case (JWTError e)
      with Inl s False have "e \<in> set auth_first_messages" by (auto intro: jwt_decode_auth_error)
      then have "\<not> contains ''iss'' (lower w e) \<and> \<not> contains ''issuer'' (lower w e)"
        by (rule auth_first_messages_no_iss)
      with Inl JWTError False show ?thesis by (simp add: auth_decode_access_token_def)
    next
      case (PyError e)
      with Inl False show ?thesis by (simp add: auth_decode_access_token_def)
    qed
  qed
qed

lemma auth_decode_no_issuer:
  assumes "jwt_decode w token (SECRET_KEY settings) [ALGORITHM settings] auth_first_options = Inr payload"
      and "map_of payload ''iss'' = None"
  shows "auth_decode_access_token w settings token = Some payload"
  using assms jwt_decode_payload[OF assms(1)]
  by (simp add: auth_decode_access_token_def get_def get_default_def)

lemma patient_decode_any_issuer:
  assumes "jwt_decode w token (SECRET_KEY settings) [ALGORITHM settings] patient_first_options = Inr payload"
  shows "patient_decode_access_token w settings token = Some payload"
  using assms jwt_decode_payload[OF assms]
  by (simp add: patient_decode_access_token_def)

lemma staff_decode_any_issuer:
  assumes "jwt_decode w token (SECRET_KEY settings) [ALGORITHM settings] staff_options = Inr payload"
  shows "staff_decode_access_token w settings token = Some payload"
  using assms by (simp add: staff_decode_access_token_def)

text \<open>
  Claim C2, as amended. In the auth-service validator (the user service and the medical-test
  service carry the same function), for a token whose signature verifies under the shared
  secret: a payload with an \<open>iss\<close> claim that is neither null nor \<open>ims-auth-service\<close> gives
  \<open>None\<close>; and a token without \<open>iss\<close> claim that passes the library's checks (signature,
  expiry, claim formats) is accepted. The patient-service validator makes no issuer check:
  it accepts every token that passes the library's checks, whatever its \<open>iss\<close>.
\<close>

theorem issuer_claim_checked_by_auth_validator_only:
  "(signature_verifies w (SECRET_KEY settings) token \<and> w_jws w token = Signed alg k payload
      \<and> map_of payload ''iss'' = Some iss \<and> iss \<noteq> JNull \<and> iss \<noteq> JStr ''ims-auth-service''
     \<longrightarrow> auth_decode_access_token w settings token = None)
   \<and> (jwt_decode w token (SECRET_KEY settings) [ALGORITHM settings] auth_first_options = Inr payload'
      \<and> map_of payload' ''iss'' = None
     \<longrightarrow> auth_decode_access_token w settings token = Some payload')
   \<and> (jwt_decode w token (SECRET_KEY settings) [ALGORITHM settings] patient_first_options = Inr payload''
     \<longrightarrow> patient_decode_access_token w settings token = Some payload'')"
  using auth_decode_issuer_mismatch[of w token alg k payload iss settings]
        auth_decode_no_issuer[of w token settings payload']
        patient_decode_any_issuer[of w token settings payload'']
  by blast

lemma decode_foreign_patient:
  "jwt_decode example_world ''t-foreign'' (SECRET_KEY example_settings) [ALGORITHM example_settings]
      patient_first_options = Inr foreign_payload"
  by (simp add: jwt_decode_def example_jws_simps(3) example_key validate_claims_def patient_first_options_def
        defaults_def validate_required_def validate_iat_def validate_nbf_def validate_exp_def validate_sub_def
        validate_jti_def validate_at_hash_def foreign_payload_def example_now is_str_def)

lemma decode_legacy_auth:
  "jwt_decode example_world ''t-legacy'' (SECRET_KEY example_settings) [ALGORITHM example_settings]
      auth_first_options = Inr legacy_payload"
  by (simp add: jwt_decode_def example_jws_simps(6) example_key validate_claims_def auth_first_options_def
        defaults_def validate_required_def validate_iat_def validate_nbf_def validate_exp_def validate_sub_def
        validate_jti_def validate_at_hash_def legacy_payload_def example_now is_str_def)

theorem issuer_claim_checked_by_auth_validator_only_witness:
  "signature_verifies example_world (SECRET_KEY example_settings) ''t-foreign''
   \<and> map_of foreign_payload ''iss'' = Some (JStr ''other-issuer'')
   \<and> auth_decode_access_token example_world example_settings ''t-foreign'' = None
   \<and> map_of legacy_payload ''iss'' = None
   \<and> auth_decode_access_token example_world example_settings ''t-legacy'' = Some legacy_payload
   \<and> patient_decode_access_token example_world example_settings ''t-foreign'' = Some foreign_payload"
proof -
  have v: "signature_verifies example_world (SECRET_KEY example_settings) ''t-foreign''"
    by (simp add: signature_verifies_def example_jws_simps(3) example_key)
  have i: "map_of foreign_payload ''iss'' = Some (JStr ''other-issuer'')"
    by (simp add: foreign_payload_def)
  have n: "map_of legacy_payload ''iss'' = None"
    by (simp add: legacy_payload_def)
  from v i n example_jws_simps(3) decode_legacy_auth decode_foreign_patient show ?thesis
    using issuer_claim_checked_by_auth_validator_only
      [where w=example_world and settings=example_settings and token="''t-foreign''" and alg="''HS256''"
         and k="''shared-secret''" and payload=foreign_payload and iss="JStr ''other-issuer''"
         and payload''=foreign_payload]
      issuer_claim_checked_by_auth_validator_only
      [where w=example_world and settings=example_settings and token="''t-legacy''"
         and payload'=legacy_payload]
    by simp
qed

text \<open>
  Claim C2 as stated fails in the patient service: a token whose signature verifies and whose
  \<open>iss\<close> is \<open>other-issuer\<close> is returned as valid.
\<close>

theorem patient_validator_accepts_foreign_issuer:
  "signature_verifies example_world (SECRET_KEY example_settings) ''t-foreign''
   \<and> w_jws example_world ''t-foreign'' = Signed ''HS256'' ''shared-secret'' foreign_payload
   \<and> map_of foreign_payload ''iss'' = Some (JStr ''other-issuer'')
   \<and> patient_decode_access_token example_world example_settings ''t-foreign'' = Some foreign_payload"
  using decode_foreign_patient example_jws_simps(3)
  by (simp add: patient_decode_access_token_def signature_verifies_def example_key foreign_payload_def)

section \<open>Guards: the admin token and the role guard\<close>

lemma example_tokens_bearer:
  "get_token_from_request (bearer_request ''t-admin'') = Some ''t-admin''"
  "get_token_from_request (bearer_request ''t-legacy'') = Some ''t-legacy''"
  "get_token_from_request (bearer_request ''t-inactive'') = Some ''t-inactive''"
  "get_token_from_request (bearer_request ''t-inactive-admin'') = Some ''t-inactive-admin''"
  by code_simp+

lemma patient_token_bearer: "patient_token (bearer_request token) hdrs = Inr token"
  by (simp add: patient_token_def bearer_request_def)

lemma example_jwt_decode:
  "opts \<in> {auth_first_options, patient_first_options} \<Longrightarrow>
   (token, payload) \<in> {(''t-admin'', admin_payload), (''t-patient'', patient_payload),
      (''t-inactive'', inactive_payload), (''t-inactive-no-sub'', inactive_no_sub_payload),
      (''t-legacy'', legacy_payload), (''t-inactive-admin'', inactive_admin_payload)} \<Longrightarrow>
   jwt_decode example_world token (SECRET_KEY example_settings) [ALGORITHM example_settings] opts = Inr payload"
  by (auto simp: jwt_decode_def example_jws_simps example_key example_now validators_defs
        auth_first_options_def patient_first_options_def defaults_def
        admin_payload_def patient_payload_def inactive_payload_def inactive_no_sub_payload_def legacy_payload_def
        inactive_admin_payload_def)

lemma example_auth_decode:
  "auth_decode_access_token example_world example_settings ''t-admin'' = Some admin_payload"
  "auth_decode_access_token example_world example_settings ''t-patient'' = Some patient_payload"
  "auth_decode_access_token example_world example_settings ''t-inactive'' = Some inactive_payload"
  "auth_decode_access_token example_world example_settings ''t-inactive-no-sub'' = Some inactive_no_sub_payload"
  "auth_decode_access_token example_world example_settings ''t-legacy'' = Some legacy_payload"
  "auth_decode_access_token example_world example_settings ''t-inactive-admin'' = Some inactive_admin_payload"
  by (simp_all add: auth_decode_access_token_def example_jwt_decode get_def get_default_def
       admin_payload_def patient_payload_def inactive_payload_def inactive_no_sub_payload_def legacy_payload_def
       inactive_admin_payload_def)

lemma example_patient_decode:
  "patient_decode_access_token example_world example_settings ''t-admin'' = Some admin_payload"
  "patient_decode_access_token example_world example_settings ''t-patient'' = Some patient_payload"
  "patient_decode_access_token example_world example_settings ''t-inactive'' = Some inactive_payload"
  "patient_decode_access_token example_world example_settings ''t-inactive-no-sub'' = Some inactive_no_sub_payload"
  "patient_decode_access_token example_world example_settings ''t-legacy'' = Some legacy_payload"
  "patient_decode_access_token example_world example_settings ''t-inactive-admin'' = Some inactive_admin_payload"
  by (simp_all add: patient_decode_access_token_def example_jwt_decode)

lemma get_absent: "map_of payload key = None \<Longrightarrow> get payload key = JNull"
  by (simp add: get_def get_default_def)

lemma get_present: "map_of payload key = Some v \<Longrightarrow> get payload key = v"
  by (simp add: get_def get_default_def)

lemma lower_words_eval:
  "is_ascii ''admin'' \<and> map lower_char ''admin'' = ''admin''"
  "is_ascii ''doctor'' \<and> map lower_char ''doctor'' = ''doctor''"
  by code_simp+

lemma lower_admin: "lower w ''admin'' = ''admin''"
  using lower_words_eval(1) by (simp add: lower_def)

lemma lower_doctor: "lower w ''doctor'' = ''doctor''"
  using lower_words_eval(2) by (simp add: lower_def)

lemma patient_require_role_admin:
  assumes "patient_token request [] = Inr token"
      and "patient_decode_access_token w settings token = Some payload"
      and "map_of payload ''role'' = Some (JStr ''admin'')" "map_of payload ''sub'' = None"
  shows "(truthy (get_default payload ''is_active'' (JBool True)) \<and> ''admin'' \<in> set (map value_or_str allowed_roles)
           \<longrightarrow> patient_require_role allowed_roles w settings request = Inr (UserDict admin_dict))
       \<and> (''admin'' \<notin> set (map value_or_str allowed_roles)
           \<longrightarrow> (\<exists>detail. patient_require_role allowed_roles w settings request = Inl (HTTPException 403 detail [])))
       \<and> (\<not> truthy (get_default payload ''is_active'' (JBool True))
           \<longrightarrow> patient_require_role allowed_roles w settings request = Inl forbidden_inactive)"
  using assms
  by (simp add: patient_require_role_def Let_def get_absent get_present in_strings_def forbidden_inactive_def)

lemma user_require_role_admin:
  assumes "auth_decode_access_token w settings token = Some payload"
      and "map_of payload ''role'' = Some (JStr ''admin'')" "map_of payload ''sub'' = None"
  shows "(list_ex (role_equals (PRole ADMIN)) allowed_roles
           \<longrightarrow> user_require_role allowed_roles w settings db token allow_inactive
                = Inr (UserDict user_admin_dict))
       \<and> (\<not> list_ex (role_equals (PRole ADMIN)) allowed_roles
           \<longrightarrow> user_require_role allowed_roles w settings db token allow_inactive
                = Inl (HTTPException 403 ''Not enough permissions'' []))"
  using assms
  by (simp add: user_require_role_def user_get_current_user_def Let_def get_absent get_present user_admin_dict_def)

lemma test_require_role_admin:
  assumes "get_token_from_request request = Some token"
      and "auth_decode_access_token w settings token = Some payload"
      and "map_of payload ''role'' = Some (JStr ''admin'')" "map_of payload ''sub'' = None"
  shows "(''admin'' \<notin> set (map (\<lambda>role. lower w (str_of_role role)) allowed_roles)
           \<longrightarrow> (\<exists>detail. test_require_role allowed_roles w settings request = Inl (HTTPException 403 detail [])))
       \<and> (truthy (get_default payload ''is_active'' (JBool True))
            \<and> ''admin'' \<in> set (map (\<lambda>role. lower w (str_of_role role)) allowed_roles)
           \<longrightarrow> test_require_role allowed_roles w settings request = Inl (unauthorized []))
       \<and> (\<not> truthy (get_default payload ''is_active'' (JBool True))
           \<longrightarrow> test_require_role allowed_roles w settings request = Inl forbidden_inactive)"
  using assms
  by (simp add: test_require_role_def Let_def get_absent get_present str_of_def lower_admin forbidden_inactive_def image_iff)

text \<open>
  Claim C1, as amended. For a token that validates and carries \<open>role = admin\<close> and no \<open>sub\<close>
  claim. In the patient service, \<open>require_role\<close> rejects with 403 (inactive account) when the
  \<open>is_active\<close> claim is present and falsy; otherwise, with an allowed set that contains admin
  it returns the admin sentinel, and with an allowed set that does not contain admin it
  rejects with 403. In the user service it returns the admin sentinel when admin is allowed
  and rejects with 403 otherwise, whatever \<open>is_active\<close> and \<open>allow_inactive\<close> are. In the
  medical-test service it rejects with 403 (inactive account) when the \<open>is_active\<close> claim is
  present and falsy; otherwise it rejects with 403 when admin is not allowed, and when admin
  is allowed it rejects the token with 401, because it demands a \<open>sub\<close> claim.
\<close>

theorem require_role_admin_token:
  "(patient_token request [] = Inr token
      \<and> patient_decode_access_token w settings token = Some payload
      \<and> map_of payload ''role'' = Some (JStr ''admin'') \<and> map_of payload ''sub'' = None
     \<longrightarrow> (truthy (get_default payload ''is_active'' (JBool True))
            \<and> ''admin'' \<in> set (map value_or_str allowed_roles)
           \<longrightarrow> patient_require_role allowed_roles w settings request = Inr (UserDict admin_dict))
        \<and> (''admin'' \<notin> set (map value_or_str allowed_roles)
           \<longrightarrow> (\<exists>detail. patient_require_role allowed_roles w settings request
                  = Inl (HTTPException 403 detail [])))
        \<and> (\<not> truthy (get_default payload ''is_active'' (JBool True))
           \<longrightarrow> patient_require_role allowed_roles w settings request = Inl forbidden_inactive))
   \<and> (auth_decode_access_token w settings token' = Some payload'
      \<and> map_of payload' ''role'' = Some (JStr ''admin'') \<and> map_of payload' ''sub'' = None
     \<longrightarrow> (list_ex (role_equals (PRole ADMIN)) allowed_roles
           \<longrightarrow> user_require_role allowed_roles w settings db token' allow_inactive
                = Inr (UserDict user_admin_dict))
        \<and> (\<not> list_ex (role_equals (PRole ADMIN)) allowed_roles
           \<longrightarrow> user_require_role allowed_roles w settings db token' allow_inactive
                = Inl (HTTPException 403 ''Not enough permissions'' [])))
   \<and> (get_token_from_request request'' = Some token''
      \<and> auth_decode_access_token w settings token'' = Some payload''
      \<and> map_of payload'' ''role'' = Some (JStr ''admin'') \<and> map_of payload'' ''sub'' = None
     \<longrightarrow> (''admin'' \<notin> set (map (\<lambda>role. lower w (str_of_role role)) allowed_roles)
           \<longrightarrow> (\<exists>detail. test_require_role allowed_roles w settings request''
                  = Inl (HTTPException 403 detail [])))
        \<and> (truthy (get_default payload'' ''is_active'' (JBool True))
            \<and> ''admin'' \<in> set (map (\<lambda>role. lower w (str_of_role role)) allowed_roles)
           \<longrightarrow> test_require_role allowed_roles w settings request'' = Inl (unauthorized []))
        \<and> (\<not> truthy (get_default payload'' ''is_active'' (JBool True))
           \<longrightarrow> test_require_role allowed_roles w settings request'' = Inl forbidden_inactive))"
proof (intro conjI)
  show "patient_token request [] = Inr token
      \<and> patient_decode_access_token w settings token = Some payload
      \<and> map_of payload ''role'' = Some (JStr ''admin'') \<and> map_of payload ''sub'' = None
     \<longrightarrow> (truthy (get_default payload ''is_active'' (JBool True))
            \<and> ''admin'' \<in> set (map value_or_str allowed_roles)
           \<longrightarrow> patient_require_role allowed_roles w settings request = Inr (UserDict admin_dict))
        \<and> (''admin'' \<notin> set (map value_or_str allowed_roles)
           \<longrightarrow> (\<exists>detail. patient_require_role allowed_roles w settings request
                  = Inl (HTTPException 403 detail [])))
        \<and> (\<not> truthy (get_default payload ''is_active'' (JBool True))
           \<longrightarrow> patient_require_role allowed_roles w settings request = Inl forbidden_inactive)"
    using patient_require_role_admin[of request token w settings payload allowed_roles] by blast
  show "auth_decode_access_token w settings token' = Some payload'
      \<and> map_of payload' ''role'' = Some (JStr ''admin'') \<and> map_of payload' ''sub'' = None
     \<longrightarrow> (list_ex (role_equals (PRole ADMIN)) allowed_roles
           \<longrightarrow> user_require_role allowed_roles w settings db token' allow_inactive
                = Inr (UserDict user_admin_dict))
        \<and> (\<not> list_ex (role_equals (PRole ADMIN)) allowed_roles
           \<longrightarrow> user_require_role allowed_roles w settings db token' allow_inactive
                = Inl (HTTPException 403 ''Not enough permissions'' []))"
    using user_require_role_admin[of w settings token' payload' allowed_roles db allow_inactive] by blast
  show "get_token_from_request request'' = Some token''
      \<and> auth_decode_access_token w settings token'' = Some payload''
      \<and> map_of payload'' ''role'' = Some (JStr ''admin'') \<and> map_of payload'' ''sub'' = None
     \<longrightarrow> (''admin'' \<notin> set (map (\<lambda>role. lower w (str_of_role role)) allowed_roles)
           \<longrightarrow> (\<exists>detail. test_require_role allowed_roles w settings request''
                  = Inl (HTTPException 403 detail [])))
        \<and> (truthy (get_default payload'' ''is_active'' (JBool True))
            \<and> ''admin'' \<in> set (map (\<lambda>role. lower w (str_of_role role)) allowed_roles)
           \<longrightarrow> test_require_role allowed_roles w settings request'' = Inl (unauthorized []))
        \<and> (\<not> truthy (get_default payload'' ''is_active'' (JBool True))
           \<longrightarrow> test_require_role allowed_roles w settings request'' = Inl forbidden_inactive)"
    using test_require_role_admin[of request'' token'' w settings payload'' allowed_roles] by blast
qed

lemma admin_payload_claims:
  "map_of admin_payload ''role'' = Some (JStr ''admin'')" "map_of admin_payload ''sub'' = None"
  "truthy (get_default admin_payload ''is_active'' (JBool True))"
  by (simp_all add: admin_payload_def get_default_def)

lemma inactive_admin_payload_claims:
  "map_of inactive_admin_payload ''role'' = Some (JStr ''admin'')" "map_of inactive_admin_payload ''sub'' = None"
  "\<not> truthy (get_default inactive_admin_payload ''is_active'' (JBool True))"
  by (simp_all add: inactive_admin_payload_def get_default_def)

theorem require_role_admin_token_witness:
  "patient_require_role [RoleEnum ADMIN] example_world example_settings (bearer_request ''t-admin'')
     = Inr (UserDict admin_dict)
   \<and> (\<exists>detail. patient_require_role [RoleEnum DOCTOR, RoleEnum RADIOLOGIST] example_world example_settings
         (bearer_request ''t-admin'') = Inl (HTTPException 403 detail []))
   \<and> patient_require_role [RoleEnum ADMIN] example_world example_settings (bearer_request ''t-inactive-admin'')
     = Inl forbidden_inactive
   \<and> user_require_role [RoleEnum ADMIN] example_world example_settings [] ''t-admin'' False
     = Inr (UserDict user_admin_dict)
   \<and> user_require_role [RoleEnum DOCTOR] example_world example_settings [] ''t-admin'' False
     = Inl (HTTPException 403 ''Not enough permissions'' [])
   \<and> (\<exists>detail. test_require_role [RoleStr ''doctor''] example_world example_settings
         (bearer_request ''t-admin'') = Inl (HTTPException 403 detail []))
   \<and> test_require_role [RoleStr ''admin'', RoleStr ''doctor''] example_world example_settings
        (bearer_request ''t-admin'') = Inl (unauthorized [])
   \<and> test_require_role [RoleStr ''admin'', RoleStr ''doctor''] example_world example_settings
        (bearer_request ''t-inactive-admin'') = Inl forbidden_inactive"
proof -
  note inst = require_role_admin_token[where w=example_world and settings=example_settings
      and request="bearer_request ''t-admin''" and token="''t-admin''" and payload=admin_payload
      and token'="''t-admin''" and payload'=admin_payload and db="[]" and allow_inactive=False
      and request''="bearer_request ''t-admin''" and token''="''t-admin''" and payload''=admin_payload]
  note inactive = require_role_admin_token[where w=example_world and settings=example_settings
      and request="bearer_request ''t-inactive-admin''" and token="''t-inactive-admin''"
      and payload=inactive_admin_payload
      and request''="bearer_request ''t-inactive-admin''" and token''="''t-inactive-admin''"
      and payload''=inactive_admin_payload]
  have lw: "lower example_world ''doctor'' = ''doctor''" by (rule lower_doctor)
  have a: "patient_require_role [RoleEnum ADMIN] example_world example_settings (bearer_request ''t-admin'')
     = Inr (UserDict admin_dict)"
    using inst[where allowed_roles="[RoleEnum ADMIN]", THEN conjunct1]
    by (simp add: patient_token_bearer example_patient_decode admin_payload_claims)
  have b: "\<exists>detail. patient_require_role [RoleEnum DOCTOR, RoleEnum RADIOLOGIST] example_world example_settings
         (bearer_request ''t-admin'') = Inl (HTTPException 403 detail [])"
    using inst[where allowed_roles="[RoleEnum DOCTOR, RoleEnum RADIOLOGIST]", THEN conjunct1]
    by (simp add: patient_token_bearer example_patient_decode admin_payload_claims)
  have b': "patient_require_role [RoleEnum ADMIN] example_world example_settings
       (bearer_request ''t-inactive-admin'') = Inl forbidden_inactive"
    using inactive[where allowed_roles="[RoleEnum ADMIN]", THEN conjunct1]
    by (simp add: patient_token_bearer example_patient_decode inactive_admin_payload_claims)
  have c: "user_require_role [RoleEnum ADMIN] example_world example_settings [] ''t-admin'' False
     = Inr (UserDict user_admin_dict)"
    using inst[where allowed_roles="[RoleEnum ADMIN]", THEN conjunct2, THEN conjunct1]
    by (simp add: example_auth_decode admin_payload_claims)
  have d: "user_require_role [RoleEnum DOCTOR] example_world example_settings [] ''t-admin'' False
     = Inl (HTTPException 403 ''Not enough permissions'' [])"
    using inst[where allowed_roles="[RoleEnum DOCTOR]", THEN conjunct2, THEN conjunct1]
    by (simp add: example_auth_decode admin_payload_claims)
  have e: "\<exists>detail. test_require_role [RoleStr ''doctor''] example_world example_settings
         (bearer_request ''t-admin'') = Inl (HTTPException 403 detail [])"
    using inst[where allowed_roles="[RoleStr ''doctor'']", THEN conjunct2, THEN conjunct2]
    by (simp add: example_tokens_bearer example_auth_decode admin_payload_claims lw)
  have f: "test_require_role [RoleStr ''admin'', RoleStr ''doctor''] example_world example_settings
        (bearer_request ''t-admin'') = Inl (unauthorized [])"
    using inst[where allowed_roles="[RoleStr ''admin'', RoleStr ''doctor'']", THEN conjunct2, THEN conjunct2]
    by (simp add: example_tokens_bearer example_auth_decode admin_payload_claims lw lower_admin)
  have g: "test_require_role [RoleStr ''admin'', RoleStr ''doctor''] example_world example_settings
        (bearer_request ''t-inactive-admin'') = Inl forbidden_inactive"
    using inactive[where allowed_roles="[RoleStr ''admin'', RoleStr ''doctor'']", THEN conjunct2, THEN conjunct2]
    by (simp add: example_tokens_bearer example_auth_decode inactive_admin_payload_claims)
  from a b b' c d e f g show ?thesis by blast
qed

text \<open>
  Claim C1 as stated fails in the medical-test service: the admin token, with the allowed set
  \<open>{admin}\<close>, is rejected with 401.
\<close>

theorem test_require_role_rejects_admin_token:
  "auth_decode_access_token example_world example_settings ''t-admin'' = Some admin_payload
   \<and> map_of admin_payload ''role'' = Some (JStr ''admin'') \<and> map_of admin_payload ''sub'' = None
   \<and> test_require_role [RoleStr ''admin''] example_world example_settings (bearer_request ''t-admin'')
       = Inl (HTTPException 401 ''Could not validate credentials'' [])"
  by (simp add: test_require_role_def example_tokens_bearer example_auth_decode admin_payload_claims
        Let_def get_def get_default_def admin_payload_def str_of_def lower_admin unauthorized_def)

section \<open>Guards: inactive accounts\<close>

lemma patient_token_hdrs: "patient_token request hdrs = Inr token \<Longrightarrow> patient_token request hdrs' = Inr token"
  by (auto simp: patient_token_def split: option.splits if_splits)




text \<open>
  Claim C10. For a token that validates and whose payload has no \<open>is_active\<close> claim, neither
  \<open>get_current_user_id\<close> nor \<open>require_role\<close>, in the patient service and in the medical-test
  service, ends in the rejection for an inactive account.
\<close>

theorem missing_is_active_defaults_to_active:
  "(patient_token request hdrs = Inr token
      \<and> patient_decode_access_token w settings token = Some payload
      \<and> map_of payload ''is_active'' = None
     \<longrightarrow> patient_get_current_user_id w settings request allow_inactive \<noteq> Inl forbidden_inactive
        \<and> patient_require_role allowed_roles w settings request \<noteq> Inl forbidden_inactive)
   \<and> (get_token_from_request request' = Some token'
      \<and> auth_decode_access_token w settings token' = Some payload'
      \<and> map_of payload' ''is_active'' = None
     \<longrightarrow> test_get_current_user_id w settings request' allow_inactive \<noteq> Inl forbidden_inactive
        \<and> test_require_role allowed_roles w settings request' \<noteq> Inl forbidden_inactive)"
proof (intro conjI impI)
  assume h: "patient_token request hdrs = Inr token
      \<and> patient_decode_access_token w settings token = Some payload
      \<and> map_of payload ''is_active'' = None"
  then have t: "patient_token request www_authenticate = Inr token" "patient_token request [] = Inr token"
    by (auto intro: patient_token_hdrs)
  from h t show "patient_get_current_user_id w settings request allow_inactive \<noteq> Inl forbidden_inactive"
    by (simp add: patient_get_current_user_id_def Let_def get_default_def unauthorized_def forbidden_inactive_def)
  from h t show "patient_require_role allowed_roles w settings request \<noteq> Inl forbidden_inactive"
    by (simp add: patient_require_role_def Let_def get_default_def forbidden_inactive_def)
next
  assume h: "get_token_from_request request' = Some token'
      \<and> auth_decode_access_token w settings token' = Some payload'
      \<and> map_of payload' ''is_active'' = None"
  from h show "test_get_current_user_id w settings request' allow_inactive \<noteq> Inl forbidden_inactive"
    by (simp add: test_get_current_user_id_def Let_def get_default_def unauthorized_def forbidden_inactive_def)
  from h show "test_require_role allowed_roles w settings request' \<noteq> Inl forbidden_inactive"
    by (simp add: test_require_role_def Let_def get_default_def unauthorized_def forbidden_inactive_def)
qed

lemma legacy_payload_claims:
  "map_of legacy_payload ''is_active'' = None"
  by (simp add: legacy_payload_def)

theorem missing_is_active_defaults_to_active_witness:
  "map_of legacy_payload ''is_active'' = None
   \<and> patient_decode_access_token example_world example_settings ''t-legacy'' = Some legacy_payload
   \<and> auth_decode_access_token example_world example_settings ''t-legacy'' = Some legacy_payload
   \<and> patient_get_current_user_id example_world example_settings (bearer_request ''t-legacy'') False
       \<noteq> Inl forbidden_inactive
   \<and> patient_require_role [RoleEnum DOCTOR] example_world example_settings (bearer_request ''t-legacy'')
       \<noteq> Inl forbidden_inactive
   \<and> test_get_current_user_id example_world example_settings (bearer_request ''t-legacy'') False
       \<noteq> Inl forbidden_inactive
   \<and> test_require_role [RoleStr ''doctor''] example_world example_settings (bearer_request ''t-legacy'')
       \<noteq> Inl forbidden_inactive"
  using missing_is_active_defaults_to_active[where w=example_world and settings=example_settings
      and request="bearer_request ''t-legacy''" and hdrs="[]" and token="''t-legacy''" and payload=legacy_payload
      and request'="bearer_request ''t-legacy''" and token'="''t-legacy''" and payload'=legacy_payload
      and allow_inactive=False and allowed_roles="[RoleEnum DOCTOR]"]
    missing_is_active_defaults_to_active[where w=example_world and settings=example_settings
      and request="bearer_request ''t-legacy''" and hdrs="[]" and token="''t-legacy''" and payload=legacy_payload
      and request'="bearer_request ''t-legacy''" and token'="''t-legacy''" and payload'=legacy_payload
      and allow_inactive=False and allowed_roles="[RoleStr ''doctor'']"]
  by (simp add: patient_token_bearer example_tokens_bearer example_patient_decode example_auth_decode
        legacy_payload_claims)

section \<open>Notifier: failures are absorbed\<close>

text \<open>
  Claim C9. Whatever the notification call does (a response of any status, a timeout, a
  connection error or any other exception), \<open>log_workflow_action_async\<close> returns without
  raising; and for the endpoint
  that schedules it as a background task, the response (status and body) is the one the
  endpoint produced, the same for every behaviour of the logging endpoint, and no background
  task raises.
\<close>

theorem notifier_absorbs_every_failure:
  "(\<exists>printed. log_workflow_action_async settings post uid action entity_type relevant_id = Inr printed)
   \<and> fst (respond_then_run settings post (create_report created report_id current_user_id))
       = fst (create_report created report_id current_user_id)
   \<and> fst (respond_then_run settings post (create_report created report_id current_user_id))
       = fst (respond_then_run settings post' (create_report created report_id current_user_id))
   \<and> list_all (\<lambda>r. \<not> isl r) (snd (respond_then_run settings post (create_report created report_id current_user_id)))"
proof -
  have r: "\<And>uid action entity_type relevant_id.
      \<exists>printed. log_workflow_action_async settings post uid action entity_type relevant_id = Inr printed"
    by (simp add: log_workflow_action_async_def try_except_def Let_def split: post_outcome.splits)
  have "list_all (\<lambda>r. \<not> isl r) (map (run_task settings post) tasks)" for tasks
  proof (induction tasks)
    case Nil then show ?case by simp
  next
    case (Cons t ts)
    from r[of "task_user_id t" "task_action t" "task_entity_type t" "task_relevant_id t"]
    have "\<not> isl (run_task settings post t)" by (auto simp: run_task_def)
    with Cons show ?case by simp
  qed
  with r show ?thesis by (simp add: respond_then_run_def)
qed

lemma notifier_examples:
  "log_workflow_action_async example_settings post_server_error (JStr ''USR-000003'') ''Create Report''
      (Some ''REPORT'') (Some ''REP-000001'') = Inr [LoggingFailed 500 ''Internal Server Error'']"
  "log_workflow_action_async example_settings post_timeout (JStr ''USR-000003'') ''Create Report''
      (Some ''REPORT'') (Some ''REP-000001'') = Inr [ErrorLogging ''timed out'']"
  "log_workflow_action_async example_settings post_refused (JStr ''USR-000003'') ''Create Report''
      (Some ''REPORT'') (Some ''REP-000001'') = Inr [ErrorLogging ''[Errno 111] Connection refused'']"
  "log_workflow_action_async example_settings post_broken (JStr ''USR-000003'') ''Create Report''
      (Some ''REPORT'') (Some ''REP-000001'') = Inr [ErrorLogging ''Invalid URL'']"
  "log_workflow_action_async example_settings post_created (JStr ''USR-000003'') ''Create Report''
      (Some ''REPORT'') (Some ''REP-000001'') = Inr []"
  by (simp_all add: log_workflow_action_async_def try_except_def Let_def
        post_server_error_def post_timeout_def post_refused_def post_broken_def post_created_def)

section \<open>Token issuance\<close>

lemma authenticate_admin:
  "uname = ADMIN_USERNAME settings \<and> password = ADMIN_PASSWORD_HASH settings \<Longrightarrow>
   authenticate_user w settings db uname password
     = Some \<lparr>ud_user_id = None, ud_username = ADMIN_USERNAME settings, ud_email = None,
                 ud_name = ''Admin'', ud_user_role = ADMIN, ud_is_active = Some True, ud_is_admin = True\<rparr>"
  by (simp add: authenticate_user_def)

lemma login_admin:
  assumes "uname = ADMIN_USERNAME settings \<and> password = ADMIN_PASSWORD_HASH settings"
  shows "\<exists>resp. fst (login w settings db uname password) = Inr resp
          \<and> access_token resp = Signed (ALGORITHM settings) (SECRET_KEY settings)
               (issued_claims w settings [(''role'', JStr ''admin''), (''is_active'', JBool True)])"
  using assms
  by (simp add: login_def authenticate_admin create_access_token_for_user_def create_access_token_def
        issued_claims_def Let_def)

lemma login_failure:
  assumes "\<not> (uname = ADMIN_USERNAME settings \<and> password = ADMIN_PASSWORD_HASH settings)"
      and "find (\<lambda>u. username u = uname) db = None
           \<or> (\<exists>u. find (\<lambda>u. username u = uname) db = Some u \<and> \<not> verify_password w password (hashed_password u))"
  shows "login w settings db uname password
           = (Inl (HTTPException 401 ''Incorrect username or password'' www_authenticate), [])"
  using assms by (auto simp: login_def authenticate_user_def)

lemma login_account:
  assumes "\<not> (uname = ADMIN_USERNAME settings \<and> password = ADMIN_PASSWORD_HASH settings)"
      and "find (\<lambda>u. username u = uname) db = Some u" "verify_password w password (hashed_password u)"
      and "user_id u \<noteq> []"
  shows "\<exists>resp. fst (login w settings db uname password) = Inr resp
          \<and> access_token resp = Signed (ALGORITHM settings) (SECRET_KEY settings)
               (issued_claims w settings
                  [(''role'', JStr (role_value (user_role u))),
                   (''is_active'', (case is_active u of None \<Rightarrow> JNull | Some b \<Rightarrow> JBool b)),
                   (''sub'', JStr (user_id u))])"
  using assms
  by (simp add: login_def authenticate_user_def create_access_token_for_user_def create_access_token_def
        issued_claims_def Let_def)

lemma issued_claims_sub:
  "map_of (issued_claims w settings data) ''sub'' = map_of data ''sub''"
  "map_of (issued_claims w settings data) ''role'' = map_of data ''role''"
  by (simp_all add: issued_claims_def map_add_def split: option.splits)

lemma login_sub_iff:
  assumes ok: "fst (login w settings db uname password) = Inr resp"
      and ids: "\<forall>u \<in> set db. user_id u \<noteq> []"
  shows "(map_of (claims_of (access_token resp)) ''sub'' = None
            \<longleftrightarrow> (uname = ADMIN_USERNAME settings \<and> password = ADMIN_PASSWORD_HASH settings))
       \<and> (map_of (claims_of (access_token resp)) ''sub'' = None
            \<longrightarrow> map_of (claims_of (access_token resp)) ''role'' = Some (JStr ''admin''))"
proof (cases "uname = ADMIN_USERNAME settings \<and> password = ADMIN_PASSWORD_HASH settings")
  case True
  from login_admin[OF True, of w db] ok show ?thesis
    using True by (auto simp: issued_claims_sub)
next
  case False
  from ok obtain ud where ud: "authenticate_user w settings db uname password = Some ud"
    by (cases "authenticate_user w settings db uname password") (auto simp: login_def)
  with False obtain u where u: "find (\<lambda>u. username u = uname) db = Some u"
      "verify_password w password (hashed_password u)"
    by (auto simp: authenticate_user_def split: option.splits if_splits)
  from u(1) have "u \<in> set db" by (auto simp: find_Some_iff)
  with ids have "user_id u \<noteq> []" by blast
  from login_account[OF False u this] ok show ?thesis
    using False by (auto simp: issued_claims_sub)
qed

text \<open>
  Claim C8, as amended. Login with the configured admin pair issues a token with
  \<open>role = admin\<close>, \<open>is_active = true\<close> and no \<open>sub\<close>. Otherwise, when no account has the user
  name or the password fails the hash check, login fails with 401 and issues no token.
  Otherwise the token carries the account's role and \<open>is_active\<close>, and \<open>sub\<close> equal to the
  account's business identifier (which is not empty). Every issued token has \<open>exp\<close> equal to
  the time of issue plus the configured lifetime, and \<open>iss = ims-auth-service\<close>. When no
  account has an empty business identifier, an issued token lacks \<open>sub\<close> exactly when it was
  issued for the admin pair, and a token without \<open>sub\<close> has \<open>role = admin\<close>; the converse is
  not claimed, since an account may have the stored role admin.
\<close>

theorem token_issuance:
  "(uname = ADMIN_USERNAME settings \<and> password = ADMIN_PASSWORD_HASH settings
     \<longrightarrow> (\<exists>resp. fst (login w settings db uname password) = Inr resp
           \<and> access_token resp = Signed (ALGORITHM settings) (SECRET_KEY settings)
                (issued_claims w settings [(''role'', JStr ''admin''), (''is_active'', JBool True)])))
   \<and> (\<not> (uname = ADMIN_USERNAME settings \<and> password = ADMIN_PASSWORD_HASH settings)
      \<and> (find (\<lambda>u. username u = uname) db = None
          \<or> (\<exists>u. find (\<lambda>u. username u = uname) db = Some u
                  \<and> \<not> verify_password w password (hashed_password u)))
     \<longrightarrow> login w settings db uname password
           = (Inl (HTTPException 401 ''Incorrect username or password'' www_authenticate), []))
   \<and> (\<not> (uname = ADMIN_USERNAME settings \<and> password = ADMIN_PASSWORD_HASH settings)
      \<and> find (\<lambda>u. username u = uname) db = Some account
      \<and> verify_password w password (hashed_password account) \<and> user_id account \<noteq> []
     \<longrightarrow> (\<exists>resp. fst (login w settings db uname password) = Inr resp
           \<and> access_token resp = Signed (ALGORITHM settings) (SECRET_KEY settings)
                (issued_claims w settings
                   [(''role'', JStr (role_value (user_role account))),
                    (''is_active'', (case is_active account of None \<Rightarrow> JNull | Some b \<Rightarrow> JBool b)),
                    (''sub'', JStr (user_id account))])))
   \<and> (fst (login w settings db uname password) = Inr issued \<and> (\<forall>u \<in> set db. user_id u \<noteq> [])
     \<longrightarrow> (map_of (claims_of (access_token issued)) ''sub'' = None
            \<longleftrightarrow> (uname = ADMIN_USERNAME settings \<and> password = ADMIN_PASSWORD_HASH settings))
        \<and> (map_of (claims_of (access_token issued)) ''sub'' = None
            \<longrightarrow> map_of (claims_of (access_token issued)) ''role'' = Some (JStr ''admin'')))"
proof (intro conjI impI)
  assume "uname = ADMIN_USERNAME settings \<and> password = ADMIN_PASSWORD_HASH settings"
  then show "\<exists>resp. fst (login w settings db uname password) = Inr resp
           \<and> access_token resp = Signed (ALGORITHM settings) (SECRET_KEY settings)
                (issued_claims w settings [(''role'', JStr ''admin''), (''is_active'', JBool True)])"
    by (rule login_admin)
next
  assume "\<not> (uname = ADMIN_USERNAME settings \<and> password = ADMIN_PASSWORD_HASH settings)
      \<and> (find (\<lambda>u. username u = uname) db = None
          \<or> (\<exists>u. find (\<lambda>u. username u = uname) db = Some u
                  \<and> \<not> verify_password w password (hashed_password u)))"
  then show "login w settings db uname password
           = (Inl (HTTPException 401 ''Incorrect username or password'' www_authenticate), [])"
    using login_failure[of uname settings password db w] by blast
next
  assume "\<not> (uname = ADMIN_USERNAME settings \<and> password = ADMIN_PASSWORD_HASH settings)
      \<and> find (\<lambda>u. username u = uname) db = Some account
      \<and> verify_password w password (hashed_password account) \<and> user_id account \<noteq> []"
  then show "\<exists>resp. fst (login w settings db uname password) = Inr resp
           \<and> access_token resp = Signed (ALGORITHM settings) (SECRET_KEY settings)
                (issued_claims w settings
                   [(''role'', JStr (role_value (user_role account))),
                    (''is_active'', (case is_active account of None \<Rightarrow> JNull | Some b \<Rightarrow> JBool b)),
                    (''sub'', JStr (user_id account))])"
    using login_account[of uname settings password db account w] by blast
next
  assume h: "fst (login w settings db uname password) = Inr issued \<and> (\<forall>u \<in> set db. user_id u \<noteq> [])"
  then show "(map_of (claims_of (access_token issued)) ''sub'' = None)
            = (uname = ADMIN_USERNAME settings \<and> password = ADMIN_PASSWORD_HASH settings)"
    using login_sub_iff[of w settings db uname password issued] by blast
  assume "map_of (claims_of (access_token issued)) ''sub'' = None"
  with h show "map_of (claims_of (access_token issued)) ''role'' = Some (JStr ''admin'')"
    using login_sub_iff[of w settings db uname password issued] by blast
qed

lemma example_settings_fields:
  "ADMIN_USERNAME example_settings = ''admin''" "ADMIN_PASSWORD_HASH example_settings = ''admin#123''"
  "ACCESS_TOKEN_EXPIRE_MINUTES example_settings = 30"
  by (simp_all add: example_settings_def)

lemma example_find:
  "find (\<lambda>u. username u = ''alice'') example_db
     = Some \<lparr>user_id = ''PAT-000012'', username = ''alice'', email = ''alice@example.org'', name = ''Alice'',
       hashed_password = ''hash-of-wonderland'', user_role = PATIENT, is_active = Some True\<rparr>"
  "find (\<lambda>u. username u = ''bob'') example_db = None"
  by (simp_all add: example_db_def)

lemma example_verify:
  "verify_password example_world ''wonderland'' ''hash-of-wonderland''"
  "\<not> verify_password example_world ''guess'' ''hash-of-wonderland''"
  by (simp_all add: verify_password_def example_world_def example_checkpw_def)

lemma example_db_ids: "\<forall>u \<in> set example_db. user_id u \<noteq> []"
  by (simp add: example_db_def)

theorem token_issuance_witness:
  "(\<exists>resp. fst (login example_world example_settings example_db ''admin'' ''admin#123'') = Inr resp
      \<and> access_token resp = Signed ''HS256'' ''shared-secret''
          [(''role'', JStr ''admin''), (''is_active'', JBool True), (''exp'', JInt 3800),
           (''iat'', JInt 2000), (''iss'', JStr ''ims-auth-service'')])
   \<and> login example_world example_settings example_db ''bob'' ''guess''
       = (Inl (HTTPException 401 ''Incorrect username or password'' www_authenticate), [])
   \<and> login example_world example_settings example_db ''alice'' ''guess''
       = (Inl (HTTPException 401 ''Incorrect username or password'' www_authenticate), [])
   \<and> (\<exists>resp. fst (login example_world example_settings example_db ''alice'' ''wonderland'') = Inr resp
      \<and> access_token resp = Signed ''HS256'' ''shared-secret''
          [(''role'', JStr ''patient''), (''is_active'', JBool True), (''sub'', JStr ''PAT-000012''),
           (''exp'', JInt 3800), (''iat'', JInt 2000), (''iss'', JStr ''ims-auth-service'')]
      \<and> map_of (claims_of (access_token resp)) ''sub'' \<noteq> None)"
proof -
  let ?alice = "\<lparr>user_id = ''PAT-000012'', username = ''alice'', email = ''alice@example.org'', name = ''Alice'',
       hashed_password = ''hash-of-wonderland'', user_role = PATIENT, is_active = Some True\<rparr>"
  have a: "\<exists>resp. fst (login example_world example_settings example_db ''admin'' ''admin#123'') = Inr resp
      \<and> access_token resp = Signed ''HS256'' ''shared-secret''
          [(''role'', JStr ''admin''), (''is_active'', JBool True), (''exp'', JInt 3800),
           (''iat'', JInt 2000), (''iss'', JStr ''ims-auth-service'')]"
    using token_issuance[where w=example_world and settings=example_settings and db=example_db
        and uname="''admin''" and password="''admin#123''", THEN conjunct1]
    by (simp add: example_settings_fields example_key example_now issued_claims_def)
  have b: "login example_world example_settings example_db ''bob'' ''guess''
       = (Inl (HTTPException 401 ''Incorrect username or password'' www_authenticate), [])"
    using token_issuance[where w=example_world and settings=example_settings and db=example_db
        and uname="''bob''" and password="''guess''", THEN conjunct2, THEN conjunct1]
    by (simp add: example_settings_fields example_find)
  have c: "login example_world example_settings example_db ''alice'' ''guess''
       = (Inl (HTTPException 401 ''Incorrect username or password'' www_authenticate), [])"
    using token_issuance[where w=example_world and settings=example_settings and db=example_db
        and uname="''alice''" and password="''guess''", THEN conjunct2, THEN conjunct1]
    by (simp add: example_settings_fields example_find example_verify)
  have d: "\<exists>resp. fst (login example_world example_settings example_db ''alice'' ''wonderland'') = Inr resp
      \<and> access_token resp = Signed ''HS256'' ''shared-secret''
          [(''role'', JStr ''patient''), (''is_active'', JBool True), (''sub'', JStr ''PAT-000012''),
           (''exp'', JInt 3800), (''iat'', JInt 2000), (''iss'', JStr ''ims-auth-service'')]"
    using token_issuance[where w=example_world and settings=example_settings and db=example_db
        and uname="''alice''" and password="''wonderland''" and account="?alice",
        THEN conjunct2, THEN conjunct2, THEN conjunct1]
    by (simp add: example_settings_fields example_find example_verify example_key example_now issued_claims_def)
  then obtain resp where r: "fst (login example_world example_settings example_db ''alice'' ''wonderland'') = Inr resp"
      "access_token resp = Signed ''HS256'' ''shared-secret''
          [(''role'', JStr ''patient''), (''is_active'', JBool True), (''sub'', JStr ''PAT-000012''),
           (''exp'', JInt 3800), (''iat'', JInt 2000), (''iss'', JStr ''ims-auth-service'')]" by blast
  have "map_of (claims_of (access_token resp)) ''sub'' \<noteq> None"
    using r(1) example_db_ids
      token_issuance[where w=example_world and settings=example_settings and db=example_db
        and uname="''alice''" and password="''wonderland''" and issued=resp,
        THEN conjunct2, THEN conjunct2, THEN conjunct2]
    by (simp add: example_settings_fields)
  with r have e: "\<exists>resp. fst (login example_world example_settings example_db ''alice'' ''wonderland'') = Inr resp
      \<and> access_token resp = Signed ''HS256'' ''shared-secret''
          [(''role'', JStr ''patient''), (''is_active'', JBool True), (''sub'', JStr ''PAT-000012''),
           (''exp'', JInt 3800), (''iat'', JInt 2000), (''iss'', JStr ''ims-auth-service'')]
      \<and> map_of (claims_of (access_token resp)) ''sub'' \<noteq> None" by blast
  from a b c e show ?thesis by blast
qed

text \<open>
  Claim C8 as stated fails in its last part: the account \<open>root\<close> has the stored role admin,
  and the token issued to it has \<open>role = admin\<close> together with a \<open>sub\<close> claim.
\<close>

theorem admin_role_account_token_has_sub:
  "token_claims (login example_world example_settings example_db ''root'' ''toor'')
     = [(''role'', JStr ''admin''), (''is_active'', JBool True), (''sub'', JStr ''USR-000001''),
        (''exp'', JInt 3800), (''iat'', JInt 2000), (''iss'', JStr ''ims-auth-service'')]"
  by (simp add: token_claims_def login_def authenticate_user_def example_settings_fields example_key
        example_db_def verify_password_def example_world_def example_checkpw_def
        create_access_token_for_user_def create_access_token_def Let_def)


end
